theory Spec2Isabelle
  imports Main "HOL-Library.Multiset"
begin

section \<open>Data model of \<^verbatim>\<open>internal/model/chatlab.go\<close>\<close>

text \<open>
  Go strings are byte sequences: \<^verbatim>\<open>len\<close> counts bytes and \<^verbatim>\<open>s[i:]\<close> slices bytes.
  They are modelled by \<^typ>\<open>string\<close>, whose characters are bytes; a literal with CJK
  characters is written as its UTF-8 bytes, as the source file stores it.
\<close>

subsection \<open>ChatLab format constants (lines 8-30)\<close>

definition ChatLabTypeText :: int where "ChatLabTypeText = 0"
definition ChatLabTypeImage :: int where "ChatLabTypeImage = 1"
definition ChatLabTypeVoice :: int where "ChatLabTypeVoice = 2"
definition ChatLabTypeVideo :: int where "ChatLabTypeVideo = 3"
definition ChatLabTypeFile :: int where "ChatLabTypeFile = 4"
definition ChatLabTypeEmoji :: int where "ChatLabTypeEmoji = 5"
definition ChatLabTypeLink :: int where "ChatLabTypeLink = 7"
definition ChatLabTypeLocation :: int where "ChatLabTypeLocation = 8"
definition ChatLabTypeRedPacket :: int where "ChatLabTypeRedPacket = 20"
definition ChatLabTypeTransfer :: int where "ChatLabTypeTransfer = 21"
definition ChatLabTypePoke :: int where "ChatLabTypePoke = 22"
definition ChatLabTypeCall :: int where "ChatLabTypeCall = 23"
definition ChatLabTypeShare :: int where "ChatLabTypeShare = 24"
definition ChatLabTypeReply :: int where "ChatLabTypeReply = 25"
definition ChatLabTypeForward :: int where "ChatLabTypeForward = 26"
definition ChatLabTypeContact :: int where "ChatLabTypeContact = 27"
definition ChatLabTypeSystem :: int where "ChatLabTypeSystem = 80"
definition ChatLabTypeRecall :: int where "ChatLabTypeRecall = 81"
definition ChatLabTypeOther :: int where "ChatLabTypeOther = 99"

definition ChatLabTypes :: "int list" where
  "ChatLabTypes =
     [ChatLabTypeText, ChatLabTypeImage, ChatLabTypeVoice, ChatLabTypeVideo, ChatLabTypeFile,
      ChatLabTypeEmoji, ChatLabTypeLink, ChatLabTypeLocation, ChatLabTypeRedPacket,
      ChatLabTypeTransfer, ChatLabTypePoke, ChatLabTypeCall, ChatLabTypeShare,
      ChatLabTypeReply, ChatLabTypeForward, ChatLabTypeContact, ChatLabTypeSystem,
      ChatLabTypeRecall, ChatLabTypeOther]"

subsection \<open>Slices\<close>

text \<open>
  A Go slice is either \<^verbatim>\<open>nil\<close> or holds a sequence of elements; \<^verbatim>\<open>make([]T, 0)\<close> is
  an empty slice that is not nil, and \<^verbatim>\<open>append\<close> to either gives a slice that is not nil.
  The capacity is not observable in the result and is left out.
\<close>

datatype 'a slice = NilSlice | Slice "'a list"

fun elems :: "'a slice \<Rightarrow> 'a list" where
  "elems NilSlice = []"
| "elems (Slice xs) = xs"

definition len :: "'a slice \<Rightarrow> nat" where
  "len s = length (elems s)"

definition make_slice :: "'a slice" where
  "make_slice = Slice []"

definition append_slice :: "'a slice \<Rightarrow> 'a \<Rightarrow> 'a slice" where
  "append_slice s x = Slice (elems s @ [x])"

subsection \<open>The export structures (lines 32-69)\<close>

record ChatLabHeader =
  Version :: string
  ExportedAt :: int
  Generator :: string
  Description :: string

record ChatLabMeta =
  Name :: string
  Platform :: string
  Type :: string
  GroupID :: string
  GroupAvatar :: string

record ChatLabMember =
  PlatformID :: string
  AccountName :: string
  GroupNickname :: string
  Aliases :: "string slice"
  Avatar :: string

record ChatLabMessage =
  Sender :: string
  AccountName :: string
  GroupNickname :: string
  Timestamp :: int
  Type :: int
  Content :: string

record ChatLab =
  ChatLab :: ChatLabHeader
  Meta :: ChatLabMeta
  Members :: "ChatLabMember slice"
  Messages :: "ChatLabMessage slice"

subsection \<open>The source message\<close>

text \<open>
  A value of Go's \<^verbatim>\<open>interface{}\<close>, as far as a type assertion can tell values apart.
\<close>

datatype any =
    AnyNil
  | AnyString string
  | AnyBool bool
  | AnyNumber int
  | AnyList "any list"
  | AnyMap "(string \<times> any) list"

text \<open>
  Modelled from the spec: the declaration of \<^verbatim>\<open>Message\<close> is in a file of the package that
  is not part of the sources at hand. The spec's data model lists its parts (sender
  identifier, sender display name, self flag, timestamp, primary type code, sub-type code,
  text content and the open-ended content attributes); the field names are the ones
  \<^verbatim>\<open>ConvertToChatLab\<close> reads. \<open>Time\<close> holds the instant as the seconds that
  \<^verbatim>\<open>msg.Time.Unix()\<close> reports. Reading a key that a Go map does not hold (or reading a nil
  map) gives the nil interface value, here \<open>None\<close>.
\<close>

record Message =
  Time :: int
  Sender :: string
  SenderName :: string
  IsSelf :: bool
  Type :: int
  SubType :: int
  Content :: string
  Contents :: "string \<rightharpoonup> any"

text \<open>
  Modelled from the spec: the constants \<^verbatim>\<open>MessageType...\<close> and \<^verbatim>\<open>MessageSubType...\<close> that
  the two switches compare against are declared in the same missing file; the spec names
  the kinds but not their numeric codes. They are a parameter of the conversion. The Go
  compiler rejects an expression switch that lists the same integer constant twice, so the
  codes of each switch are pairwise distinct in every program that compiles.
\<close>

record type_codes =
  MessageTypeText :: int
  MessageTypeImage :: int
  MessageTypeVoice :: int
  MessageTypeVideo :: int
  MessageTypeAnimation :: int
  MessageTypeLocation :: int
  MessageTypeCard :: int
  MessageTypeVOIP :: int
  MessageTypeSystem :: int
  MessageTypeShare :: int
  MessageSubTypeFile :: int
  MessageSubTypeLink :: int
  MessageSubTypeLink2 :: int
  MessageSubTypeMergeForward :: int
  MessageSubTypeNote :: int
  MessageSubTypeChatRoomNotice :: int
  MessageSubTypeMiniProgram :: int
  MessageSubTypeMiniProgram2 :: int
  MessageSubTypeQuote :: int
  MessageSubTypePat :: int
  MessageSubTypeMusic :: int
  MessageSubTypePay :: int
  MessageSubTypeRedEnvelope :: int
  MessageSubTypeRedEnvelopeCover :: int

definition primary_codes :: "type_codes \<Rightarrow> int list" where
  "primary_codes c =
     [MessageTypeText c, MessageTypeImage c, MessageTypeVoice c, MessageTypeVideo c,
      MessageTypeAnimation c, MessageTypeLocation c, MessageTypeCard c, MessageTypeVOIP c,
      MessageTypeSystem c, MessageTypeShare c]"

definition sub_codes :: "type_codes \<Rightarrow> int list" where
  "sub_codes c =
     [MessageSubTypeFile c, MessageSubTypeLink c, MessageSubTypeLink2 c,
      MessageSubTypeMergeForward c, MessageSubTypeNote c, MessageSubTypeChatRoomNotice c,
      MessageSubTypeMiniProgram c, MessageSubTypeMiniProgram2 c, MessageSubTypeQuote c,
      MessageSubTypePat c, MessageSubTypeMusic c, MessageSubTypePay c,
      MessageSubTypeRedEnvelope c, MessageSubTypeRedEnvelopeCover c]"

definition compiles :: "type_codes \<Rightarrow> bool" where
  "compiles c \<longleftrightarrow> distinct (primary_codes c) \<and> distinct (sub_codes c)"

text \<open>One assignment of codes that compiles, used to run the model on concrete inputs.\<close>

definition sample_codes :: type_codes where
  "sample_codes =
     \<lparr>MessageTypeText = 1, MessageTypeImage = 3, MessageTypeVoice = 34, MessageTypeVideo = 43,
      MessageTypeAnimation = 47, MessageTypeLocation = 48, MessageTypeCard = 42,
      MessageTypeVOIP = 50, MessageTypeSystem = 10000, MessageTypeShare = 49,
      MessageSubTypeFile = 6, MessageSubTypeLink = 4, MessageSubTypeLink2 = 5,
      MessageSubTypeMergeForward = 19, MessageSubTypeNote = 24,
      MessageSubTypeChatRoomNotice = 87, MessageSubTypeMiniProgram = 33,
      MessageSubTypeMiniProgram2 = 36, MessageSubTypeQuote = 57, MessageSubTypePat = 62,
      MessageSubTypeMusic = 92, MessageSubTypePay = 2000, MessageSubTypeRedEnvelope = 2001,
      MessageSubTypeRedEnvelopeCover = 2003\<rparr>"

section \<open>The conversion (lines 72-241)\<close>

subsection \<open>Soft attribute reads\<close>

text \<open>
  \<^verbatim>\<open>v, ok := msg.Contents[key].(string)\<close>: the two-result form of the type assertion never
  panics; when the value is not a string, \<open>v\<close> is the empty string and \<open>ok\<close> is false.
\<close>

fun string_assertion :: "any option \<Rightarrow> string \<times> bool" where
  "string_assertion (Some (AnyString s)) = (s, True)"
| "string_assertion _ = ('''', False)"

subsection \<open>String literals of the source\<close>

definition placeholder_image :: string where
  "placeholder_image = [CHR ''['', CHR 0xE5, CHR 0x9B, CHR 0xBE, CHR 0xE7, CHR 0x89, CHR 0x87, CHR '']'']"

definition placeholder_voice :: string where
  "placeholder_voice = [CHR ''['', CHR 0xE8, CHR 0xAF, CHR 0xAD, CHR 0xE9, CHR 0x9F, CHR 0xB3, CHR '']'']"

definition placeholder_video :: string where
  "placeholder_video = [CHR ''['', CHR 0xE8, CHR 0xA7, CHR 0x86, CHR 0xE9, CHR 0xA2, CHR 0x91, CHR '']'']"

definition placeholder_emoji :: string where
  "placeholder_emoji = [CHR ''['', CHR 0xE8, CHR 0xA1, CHR 0xA8, CHR 0xE6, CHR 0x83, CHR 0x85, CHR '']'']"

definition placeholder_location :: string where
  "placeholder_location = [CHR ''['', CHR 0xE4, CHR 0xBD, CHR 0x8D, CHR 0xE7, CHR 0xBD, CHR 0xAE, CHR '']'']"

definition placeholder_card :: string where
  "placeholder_card = [CHR ''['', CHR 0xE5, CHR 0x90, CHR 0x8D, CHR 0xE7, CHR 0x89, CHR 0x87, CHR '']'']"

definition placeholder_call :: string where
  "placeholder_call = [CHR ''['', CHR 0xE9, CHR 0x80, CHR 0x9A, CHR 0xE8, CHR 0xAF, CHR 0x9D, CHR '']'']"

definition placeholder_red_packet :: string where
  "placeholder_red_packet = [CHR ''['', CHR 0xE7, CHR 0xBA, CHR 0xA2, CHR 0xE5, CHR 0x8C, CHR 0x85, CHR '']'']"

definition self_name :: string where
  "self_name = [CHR 0xE6, CHR 0x88, CHR 0x91]"

subsection \<open>Type and content of one message (lines 103-195)\<close>

text \<open>
  The inner switch on \<^verbatim>\<open>msg.SubType\<close> (lines 153-192). It starts from the default share
  type and the content read so far; a switch takes the first case that is equal.
\<close>

definition share_switch :: "type_codes \<Rightarrow> Message \<Rightarrow> string \<Rightarrow> int \<times> string" where
  "share_switch c msg content =
    (let st = Message.SubType msg; clType = ChatLabTypeShare in
     if st = MessageSubTypeFile c then
       (case string_assertion (Contents msg ''title'') of
          (title, ok) \<Rightarrow> (ChatLabTypeFile, if ok then title else content))
     else if st = MessageSubTypeLink c \<or> st = MessageSubTypeLink2 c then
       (case string_assertion (Contents msg ''url'') of
          (url, ok) \<Rightarrow> (ChatLabTypeLink, if ok then url else content))
     else if st = MessageSubTypeMergeForward c \<or> st = MessageSubTypeNote c
             \<or> st = MessageSubTypeChatRoomNotice c then
       (case string_assertion (Contents msg ''title'') of
          (title, ok) \<Rightarrow> (ChatLabTypeForward, if ok then title else content))
     else if st = MessageSubTypeMiniProgram c \<or> st = MessageSubTypeMiniProgram2 c then
       (case string_assertion (Contents msg ''title'') of
          (title, ok) \<Rightarrow> (ChatLabTypeShare, if ok then title else content))
     else if st = MessageSubTypeQuote c then (ChatLabTypeReply, content)
     else if st = MessageSubTypePat c then (ChatLabTypePoke, content)
     else if st = MessageSubTypeMusic c then
       (case string_assertion (Contents msg ''url'') of
          (url, ok) \<Rightarrow> (ChatLabTypeShare, if ok then url else content))
     else if st = MessageSubTypePay c then (ChatLabTypeTransfer, content)
     else if st = MessageSubTypeRedEnvelope c \<or> st = MessageSubTypeRedEnvelopeCover c then
       (ChatLabTypeRedPacket, placeholder_red_packet)
     else (clType, content))"

text \<open>
  The outer switch on \<^verbatim>\<open>msg.Type\<close> (lines 104-195), giving the pair
  \<^verbatim>\<open>(clType, content)\<close> as it stands after the switch.
\<close>

definition type_switch :: "type_codes \<Rightarrow> Message \<Rightarrow> int \<times> string" where
  "type_switch c msg =
    (let t = Message.Type msg; content = Message.Content msg in
     if t = MessageTypeText c then (ChatLabTypeText, content)
     else if t = MessageTypeImage c then
       (case string_assertion (Contents msg ''path'') of
          (path, ok) \<Rightarrow>
            if ok then (ChatLabTypeImage, path)
            else (case string_assertion (Contents msg ''md5'') of
                    (md5, ok) \<Rightarrow>
                      if ok then (ChatLabTypeImage, md5)
                      else (ChatLabTypeImage, placeholder_image)))
     else if t = MessageTypeVoice c then (ChatLabTypeVoice, placeholder_voice)
     else if t = MessageTypeVideo c then (ChatLabTypeVideo, placeholder_video)
     else if t = MessageTypeAnimation c then
       (case string_assertion (Contents msg ''cdnurl'') of
          (cdnURL, ok) \<Rightarrow> (ChatLabTypeEmoji, if ok then cdnURL else placeholder_emoji))
     else if t = MessageTypeLocation c then
       (case string_assertion (Contents msg ''label'') of
          (label, _) \<Rightarrow>
            (ChatLabTypeLocation, if label \<noteq> '''' then label else placeholder_location))
     else if t = MessageTypeCard c then (ChatLabTypeContact, placeholder_card)
     else if t = MessageTypeVOIP c then (ChatLabTypeCall, placeholder_call)
     else if t = MessageTypeSystem c then (ChatLabTypeSystem, content)
     else if t = MessageTypeShare c then share_switch c msg content
     else (ChatLabTypeOther, content))"

subsection \<open>Display name, export message and roster entry of one message (lines 197-233)\<close>

definition senderName :: "Message \<Rightarrow> string" where
  "senderName msg =
     (if IsSelf msg \<and> Message.SenderName msg = '''' then self_name else Message.SenderName msg)"

definition clMsg :: "type_codes \<Rightarrow> bool \<Rightarrow> Message \<Rightarrow> ChatLabMessage" where
  "clMsg c isGroup msg =
    (case type_switch c msg of
       (clType, content) \<Rightarrow>
         let m = \<lparr>ChatLabMessage.Sender = Message.Sender msg,
                  ChatLabMessage.AccountName = senderName msg,
                  ChatLabMessage.GroupNickname = '''',
                  Timestamp = Message.Time msg,
                  ChatLabMessage.Type = clType,
                  ChatLabMessage.Content = content\<rparr>
         in if isGroup then m\<lparr>ChatLabMessage.GroupNickname := senderName msg\<rparr> else m)"

definition member :: "bool \<Rightarrow> Message \<Rightarrow> ChatLabMember" where
  "member isGroup msg =
    (let m = \<lparr>PlatformID = Message.Sender msg,
              ChatLabMember.AccountName = senderName msg,
              ChatLabMember.GroupNickname = '''',
              Aliases = NilSlice,
              Avatar = ''''\<rparr>
     in if isGroup then m\<lparr>ChatLabMember.GroupNickname := senderName msg\<rparr> else m)"

subsection \<open>The loop over the messages (lines 102-234)\<close>

text \<open>
  \<^verbatim>\<open>memberMap\<close> is a Go map from sender to member. It is held as an association list
  with one pair per key; a new key goes to the end. The position of a pair has no meaning
  for the map: the final \<^verbatim>\<open>range\<close> over it visits the pairs in an order of its own.
\<close>

type_synonym memberMap = "(string \<times> ChatLabMember) list"

definition collect_member :: "bool \<Rightarrow> Message \<Rightarrow> memberMap \<Rightarrow> memberMap" where
  "collect_member isGroup msg memberMap =
     (if map_of memberMap (Message.Sender msg) = None
      then memberMap @ [(Message.Sender msg, member isGroup msg)]
      else memberMap)"

definition loop_body ::
  "type_codes \<Rightarrow> bool \<Rightarrow> Message \<Rightarrow> ChatLabMessage slice \<times> memberMap
     \<Rightarrow> ChatLabMessage slice \<times> memberMap" where
  "loop_body c isGroup msg st =
     (case st of (messages, memberMap) \<Rightarrow>
        (append_slice messages (clMsg c isGroup msg), collect_member isGroup msg memberMap))"

text \<open>
  The elements of \<^verbatim>\<open>messages []*Message\<close> are pointers. The body reads \<^verbatim>\<open>msg.Content\<close>
  first, which panics on a nil pointer; \<open>None\<close> is the nil pointer.
\<close>

datatype error = NilPointerDereference

fun convert_loop ::
  "type_codes \<Rightarrow> bool \<Rightarrow> Message option list \<Rightarrow> ChatLabMessage slice \<times> memberMap
     \<Rightarrow> error + ChatLabMessage slice \<times> memberMap" where
  "convert_loop c isGroup [] st = Inr st"
| "convert_loop c isGroup (None # rest) st = Inl NilPointerDereference"
| "convert_loop c isGroup (Some msg # rest) st =
     convert_loop c isGroup rest (loop_body c isGroup msg st)"

subsection \<open>Ranging over the member map (lines 236-238)\<close>

text \<open>
  Go leaves the iteration order of a \<^verbatim>\<open>range\<close> over a map unspecified, and it may differ
  from one run to the next. The choice of the runtime is an input of the model: a list of
  numbers, each picking the next pair among those not yet visited. Every list of choices
  gives an order, and every order comes from some list of choices.
\<close>

fun range_order :: "nat list \<Rightarrow> 'a list \<Rightarrow> 'a list" where
  "range_order ks [] = []"
| "range_order [] (x # xs) = x # xs"
| "range_order (k # ks) (x # xs) =
     (let ys = x # xs; i = k mod length ys
      in ys ! i # range_order ks (take i ys @ drop (Suc i) ys))"

subsection \<open>Chat type (lines 92-98)\<close>

text \<open>
  The slice expression \<^verbatim>\<open>talkerID[len(talkerID)-9:]\<close> is evaluated only when the length
  is above 9, so it is in range and the subtraction does not go below zero.
\<close>

definition isGroup :: "string \<Rightarrow> bool" where
  "isGroup talkerID \<longleftrightarrow>
     length talkerID > 9 \<and> drop (length talkerID - 9) talkerID = ''@chatroom''"

subsection \<open>\<^verbatim>\<open>ConvertToChatLab\<close>\<close>

text \<open>
  Besides the three arguments of the Go function, the model takes the type codes, the
  value \<open>now\<close> of \<^verbatim>\<open>time.Now().Unix()\<close> and the choices \<open>order\<close> of the map iteration.
\<close>

definition ConvertToChatLab ::
  "type_codes \<Rightarrow> int \<Rightarrow> nat list \<Rightarrow> Message option list \<Rightarrow> string \<Rightarrow> string
     \<Rightarrow> error + ChatLab" where
  "ConvertToChatLab c now order messages talkerID talkerName =
    (let cl = \<lparr>ChatLab = \<lparr>Version = ''0.0.1'', ExportedAt = now, Generator = ''Chatlog'',
                          Description = ''''\<rparr>,
               Meta = \<lparr>Name = talkerName, Platform = ''wechat'',
                       ChatLabMeta.Type = ''private'', GroupID = '''', GroupAvatar = ''''\<rparr>,
               Members = make_slice,
               Messages = make_slice\<rparr>;
         cl = (if talkerName = '''' then cl\<lparr>Meta := (Meta cl)\<lparr>Name := talkerID\<rparr>\<rparr> else cl);
         cl = (if isGroup talkerID
               then cl\<lparr>Meta := (Meta cl)\<lparr>ChatLabMeta.Type := ''group'', GroupID := talkerID\<rparr>\<rparr>
               else cl)
     in case convert_loop c (isGroup talkerID) messages (Messages cl, []) of
          Inl e \<Rightarrow> Inl e
        | Inr (msgs, memberMap) \<Rightarrow>
            Inr (cl\<lparr>Messages := msgs,
                    Members := foldl append_slice (Members cl)
                                 (map snd (range_order order memberMap))\<rparr>))"

section \<open>Auxiliary definitions for the proofs\<close>

text \<open>The member map after the loop has run over \<open>ms\<close>, started from \<open>mm\<close>.\<close>

definition collect_members :: "bool \<Rightarrow> Message list \<Rightarrow> memberMap \<Rightarrow> memberMap" where
  "collect_members g ms mm = foldl (\<lambda>mm m. collect_member g m mm) mm ms"

text \<open>The header and the metadata that \<^const>\<open>ConvertToChatLab\<close> returns.\<close>

definition header :: "int \<Rightarrow> ChatLabHeader" where
  "header now = \<lparr>Version = ''0.0.1'', ExportedAt = now, Generator = ''Chatlog'', Description = ''''\<rparr>"

definition meta :: "string \<Rightarrow> string \<Rightarrow> ChatLabMeta" where
  "meta talkerID talkerName =
     \<lparr>Name = (if talkerName = '''' then talkerID else talkerName),
      Platform = ''wechat'',
      ChatLabMeta.Type = (if isGroup talkerID then ''group'' else ''private''),
      GroupID = (if isGroup talkerID then talkerID else ''''),
      GroupAvatar = ''''\<rparr>"

text \<open>The first message of a sender, and the roster entry of a sender.\<close>

definition first_message :: "string \<Rightarrow> Message list \<Rightarrow> Message option" where
  "first_message s ms = find (\<lambda>m. Message.Sender m = s) ms"

definition roster_entry :: "ChatLab \<Rightarrow> string \<Rightarrow> ChatLabMember option" where
  "roster_entry cl s = find (\<lambda>r. PlatformID r = s) (elems (Members cl))"

text \<open>Messages to run the model on.\<close>

definition msg_hello :: Message where
  "msg_hello =
     \<lparr>Time = 1700000300, Message.Sender = ''wxid_alice'', SenderName = ''Alice'', IsSelf = False,
      Message.Type = 1, SubType = 0, Message.Content = ''hello'', Contents = Map.empty\<rparr>"

definition msg_image :: Message where
  "msg_image =
     \<lparr>Time = 1700000100, Message.Sender = ''wxid_me'', SenderName = '''', IsSelf = True,
      Message.Type = 3, SubType = 0, Message.Content = '''',
      Contents = [''path'' \<mapsto> AnyString ''/tmp/a.jpg'']\<rparr>"

definition msg_image_bare :: Message where
  "msg_image_bare =
     \<lparr>Time = 1700000200, Message.Sender = ''wxid_alice'', SenderName = ''Alice'', IsSelf = False,
      Message.Type = 3, SubType = 0, Message.Content = ''<msg/>'', Contents = Map.empty\<rparr>"

definition msg_link :: Message where
  "msg_link =
     \<lparr>Time = 1700000400, Message.Sender = ''wxid_alice'', SenderName = ''Alice'', IsSelf = False,
      Message.Type = 49, SubType = 4, Message.Content = ''a page'',
      Contents = [''url'' \<mapsto> AnyString ''https://x.test'']\<rparr>"

definition msg_link_bare :: Message where
  "msg_link_bare =
     \<lparr>Time = 1700000500, Message.Sender = ''wxid_alice'', SenderName = ''Alice'', IsSelf = False,
      Message.Type = 49, SubType = 5, Message.Content = '''',
      Contents = [''url'' \<mapsto> AnyNumber 7]\<rparr>"

definition msg_share_unknown :: Message where
  "msg_share_unknown =
     \<lparr>Time = 1700000600, Message.Sender = ''wxid_bob'', SenderName = ''Bob'', IsSelf = False,
      Message.Type = 49, SubType = 51, Message.Content = ''channel'',
      Contents = [''title'' \<mapsto> AnyString ''ignored'']\<rparr>"

definition msg_unknown :: Message where
  "msg_unknown =
     \<lparr>Time = 1700000700, Message.Sender = ''wxid_bob'', SenderName = ''Bob'', IsSelf = False,
      Message.Type = 9999, SubType = 0, Message.Content = ''raw'',
      Contents = [''path'' \<mapsto> AnyBool True]\<rparr>"

definition msg_self_named :: Message where
  "msg_self_named =
     \<lparr>Time = 1700000800, Message.Sender = ''wxid_me'', SenderName = ''Carol'', IsSelf = True,
      Message.Type = 1, SubType = 0, Message.Content = ''first'', Contents = Map.empty\<rparr>"

definition msg_self_unnamed :: Message where
  "msg_self_unnamed =
     \<lparr>Time = 1700000900, Message.Sender = ''wxid_me'', SenderName = '''', IsSelf = True,
      Message.Type = 1, SubType = 0, Message.Content = ''second'', Contents = Map.empty\<rparr>"

definition msg_image_md5 :: Message where
  "msg_image_md5 =
     \<lparr>Time = 1700000150, Message.Sender = ''wxid_alice'', SenderName = ''Alice'', IsSelf = False,
      Message.Type = 3, SubType = 0, Message.Content = ''<msg/>'',
      Contents = [''path'' \<mapsto> AnyNil, ''md5'' \<mapsto> AnyString ''d41d8cd9'']\<rparr>"

text \<open>
  An attribute that a soft read does not take for a string: the key is absent, or its
  value has another type.
\<close>

definition not_a_string :: "any option \<Rightarrow> bool" where
  "not_a_string v = (case v of Some (AnyString s) \<Rightarrow> False | _ \<Rightarrow> True)"

text \<open>Export type and content of the i-th message of an envelope.\<close>

definition exported :: "ChatLab \<Rightarrow> nat \<Rightarrow> int \<times> string" where
  "exported cl i =
     (ChatLabMessage.Type (elems (Messages cl) ! i), ChatLabMessage.Content (elems (Messages cl) ! i))"

text \<open>Messages whose attributes are absent or are not strings.\<close>

definition msg_sticker_bare :: Message where
  "msg_sticker_bare =
     \<lparr>Time = 1700001100, Message.Sender = ''wxid_bob'', SenderName = ''Bob'', IsSelf = False,
      Message.Type = 47, SubType = 0, Message.Content = ''<emoji/>'',
      Contents = [''cdnurl'' \<mapsto> AnyNumber 0]\<rparr>"

definition msg_location_bare :: Message where
  "msg_location_bare =
     \<lparr>Time = 1700001200, Message.Sender = ''wxid_bob'', SenderName = ''Bob'', IsSelf = False,
      Message.Type = 48, SubType = 0, Message.Content = ''<location/>'', Contents = Map.empty\<rparr>"

definition msg_file_bare :: Message where
  "msg_file_bare =
     \<lparr>Time = 1700001300, Message.Sender = ''wxid_bob'', SenderName = ''Bob'', IsSelf = False,
      Message.Type = 49, SubType = 6, Message.Content = ''report'',
      Contents = [''title'' \<mapsto> AnyNil]\<rparr>"

definition msg_note_bare :: Message where
  "msg_note_bare =
     \<lparr>Time = 1700001400, Message.Sender = ''wxid_bob'', SenderName = ''Bob'', IsSelf = False,
      Message.Type = 49, SubType = 24, Message.Content = ''note'', Contents = Map.empty\<rparr>"

definition msg_mini_bare :: Message where
  "msg_mini_bare =
     \<lparr>Time = 1700001500, Message.Sender = ''wxid_bob'', SenderName = ''Bob'', IsSelf = False,
      Message.Type = 49, SubType = 33, Message.Content = ''mini'',
      Contents = [''title'' \<mapsto> AnyBool False]\<rparr>"

definition msg_music_bare :: Message where
  "msg_music_bare =
     \<lparr>Time = 1700001600, Message.Sender = ''wxid_bob'', SenderName = ''Bob'', IsSelf = False,
      Message.Type = 49, SubType = 92, Message.Content = ''song'',
      Contents = [''url'' \<mapsto> AnyList []]\<rparr>"

text \<open>The two roster entries and the envelope of a private chat with two messages.\<close>

definition roster_alice :: ChatLabMember where
  "roster_alice =
     \<lparr>PlatformID = ''wxid_alice'', ChatLabMember.AccountName = ''Alice'',
      ChatLabMember.GroupNickname = '''', Aliases = NilSlice, Avatar = ''''\<rparr>"

definition roster_me :: ChatLabMember where
  "roster_me =
     \<lparr>PlatformID = ''wxid_me'', ChatLabMember.AccountName = [CHR 0xE6, CHR 0x88, CHR 0x91],
      ChatLabMember.GroupNickname = '''', Aliases = NilSlice, Avatar = ''''\<rparr>"

definition two_message_envelope :: "ChatLabMember list \<Rightarrow> ChatLab" where
  "two_message_envelope members =
     \<lparr>ChatLab = \<lparr>Version = ''0.0.1'', ExportedAt = 0, Generator = ''Chatlog'',
                  Description = ''''\<rparr>,
      Meta = \<lparr>Name = ''Alice'', Platform = ''wechat'', ChatLabMeta.Type = ''private'',
              GroupID = '''', GroupAvatar = ''''\<rparr>,
      Members = Slice members,
      Messages = Slice
        [\<lparr>ChatLabMessage.Sender = ''wxid_alice'', ChatLabMessage.AccountName = ''Alice'',
          ChatLabMessage.GroupNickname = '''', Timestamp = 1700000300,
          ChatLabMessage.Type = 0, ChatLabMessage.Content = ''hello''\<rparr>,
         \<lparr>ChatLabMessage.Sender = ''wxid_me'',
          ChatLabMessage.AccountName = [CHR 0xE6, CHR 0x88, CHR 0x91],
          ChatLabMessage.GroupNickname = '''', Timestamp = 1700000100,
          ChatLabMessage.Type = 1, ChatLabMessage.Content = ''/tmp/a.jpg''\<rparr>]\<rparr>"

section \<open>Properties\<close>

lemmas ChatLabType_defs =
  ChatLabTypeText_def ChatLabTypeImage_def ChatLabTypeVoice_def ChatLabTypeVideo_def
  ChatLabTypeFile_def ChatLabTypeEmoji_def ChatLabTypeLink_def ChatLabTypeLocation_def
  ChatLabTypeRedPacket_def ChatLabTypeTransfer_def ChatLabTypePoke_def ChatLabTypeCall_def
  ChatLabTypeShare_def ChatLabTypeReply_def ChatLabTypeForward_def ChatLabTypeContact_def
  ChatLabTypeSystem_def ChatLabTypeRecall_def ChatLabTypeOther_def

lemmas msg_defs =
  msg_hello_def msg_image_def msg_image_md5_def msg_image_bare_def msg_link_def
  msg_link_bare_def msg_share_unknown_def msg_unknown_def msg_self_named_def
  msg_self_unnamed_def

lemmas run_defs =
  header_def meta_def isGroup_def clMsg_def type_switch_def share_switch_def senderName_def
  collect_member_def member_def sample_codes_def

lemmas bare_defs =
  msg_sticker_bare_def msg_location_bare_def msg_file_bare_def msg_note_bare_def
  msg_mini_bare_def msg_music_bare_def msg_image_bare_def msg_link_bare_def msg_unknown_def

subsection \<open>The loop and the result in closed form\<close>

lemma collect_members_Nil [simp]: "collect_members g [] mm = mm"
  by (simp add: collect_members_def)

lemma collect_members_Cons [simp]:
  "collect_members g (m # ms) mm = collect_members g ms (collect_member g m mm)"
  by (simp add: collect_members_def)

lemma convert_loop_Some:
  "convert_loop c g (map Some ms) (Slice out, mm) =
     Inr (Slice (out @ map (clMsg c g) ms), collect_members g ms mm)"
  by (induction ms arbitrary: out mm) (simp_all add: loop_body_def append_slice_def)

text \<open>A nil pointer among the messages makes the loop panic; it is the only panic.\<close>

lemma convert_loop_nil:
  "convert_loop c g (map Some ms @ None # rest) st = Inl NilPointerDereference"
  by (induction ms arbitrary: st) simp_all

lemma ConvertToChatLab_nil:
  "ConvertToChatLab c now order (map Some ms @ None # rest) tid tname = Inl NilPointerDereference"
  by (simp add: ConvertToChatLab_def convert_loop_nil Let_def)

lemma foldl_append_slice: "foldl append_slice (Slice xs) ys = Slice (xs @ ys)"
  by (induction ys arbitrary: xs) (simp_all add: append_slice_def)

lemma ConvertToChatLab_Some:
  "ConvertToChatLab c now order (map Some ms) tid tname =
     Inr \<lparr>ChatLab = header now, Meta = meta tid tname,
          Members = Slice (map snd (range_order order (collect_members (isGroup tid) ms []))),
          Messages = Slice (map (clMsg c (isGroup tid)) ms)\<rparr>"
  by (simp add: ConvertToChatLab_def make_slice_def convert_loop_Some foldl_append_slice
      header_def meta_def)

lemma Meta_of_result:
  "ConvertToChatLab c now order (map Some ms) tid tname = Inr cl \<Longrightarrow> Meta cl = meta tid tname"
  by (auto simp add: ConvertToChatLab_Some)

lemma Members_of_result:
  "ConvertToChatLab c now order (map Some ms) tid tname = Inr cl \<Longrightarrow>
   elems (Members cl) = map snd (range_order order (collect_members (isGroup tid) ms []))"
  by (auto simp add: ConvertToChatLab_Some)

lemma Messages_of_result:
  "ConvertToChatLab c now order (map Some ms) tid tname = Inr cl \<Longrightarrow>
   elems (Messages cl) = map (clMsg c (isGroup tid)) ms"
  by (auto simp add: ConvertToChatLab_Some)

lemma run_two:
  "ConvertToChatLab c now order [Some a, Some b] tid tname =
     Inr \<lparr>ChatLab = header now, Meta = meta tid tname,
          Members = Slice (map snd (range_order order
                      (collect_member (isGroup tid) b (collect_member (isGroup tid) a [])))),
          Messages = Slice [clMsg c (isGroup tid) a, clMsg c (isGroup tid) b]\<rparr>"
  using ConvertToChatLab_Some [of c now order "[a, b]" tid tname] by simp

lemma clMsg_fields:
  "ChatLabMessage.Type (clMsg c g m) = fst (type_switch c m)"
  "ChatLabMessage.Content (clMsg c g m) = snd (type_switch c m)"
  "ChatLabMessage.AccountName (clMsg c g m) = senderName m"
  "ChatLabMessage.GroupNickname (clMsg c g m) = (if g then senderName m else '''')"
  "ChatLabMessage.Sender (clMsg c g m) = Message.Sender m"
  "Timestamp (clMsg c g m) = Message.Time m"
  by (simp_all add: clMsg_def Let_def split: prod.split)

lemma isGroup_iff: "isGroup tid \<longleftrightarrow> 9 < length tid \<and> (\<exists>p. tid = p @ ''@chatroom'')"
proof
  assume g: "isGroup tid"
  then have "tid = take (length tid - 9) tid @ ''@chatroom''"
    unfolding isGroup_def by (metis append_take_drop_id)
  with g show "9 < length tid \<and> (\<exists>p. tid = p @ ''@chatroom'')"
    unfolding isGroup_def by blast
next
  assume "9 < length tid \<and> (\<exists>p. tid = p @ ''@chatroom'')"
  then obtain p where "9 < length tid" "tid = p @ ''@chatroom''" by blast
  then show "isGroup tid" unfolding isGroup_def by simp
qed

subsection \<open>The iteration order is any permutation\<close>

lemma mset_remove_nth:
  "i < length ys \<Longrightarrow> add_mset (ys ! i) (mset (take i ys @ drop (Suc i) ys)) = mset ys"
proof -
  assume "i < length ys"
  then have "ys = take i ys @ ys ! i # drop (Suc i) ys" by (rule id_take_nth_drop)
  then have "mset ys = mset (take i ys @ ys ! i # drop (Suc i) ys)" by simp
  then show ?thesis by simp
qed

lemma mset_range_order: "mset (range_order ks xs) = mset xs"
proof (induction ks xs rule: range_order.induct)
  case (3 k ks x xs)
  define i where "i = k mod length (x # xs)"
  have i: "i < length (x # xs)" by (simp add: i_def)
  have "mset (range_order (k # ks) (x # xs)) =
        add_mset ((x # xs) ! i) (mset (range_order ks (take i (x # xs) @ drop (Suc i) (x # xs))))"
    by (simp add: Let_def i_def)
  also have "\<dots> = add_mset ((x # xs) ! i) (mset (take i (x # xs) @ drop (Suc i) (x # xs)))"
    using 3[OF refl i_def] by simp
  also have "\<dots> = mset (x # xs)" using i by (rule mset_remove_nth)
  finally show ?case .
qed simp_all

lemma set_range_order: "set (range_order ks xs) = set xs"
  by (metis mset_range_order set_mset_mset)

lemma length_range_order: "length (range_order ks xs) = length xs"
  by (metis mset_range_order size_mset)

lemma range_order_complete: "mset ys = mset xs \<Longrightarrow> \<exists>ks. range_order ks xs = ys"
proof (induction ys arbitrary: xs)
  case Nil
  then show ?case by simp
next
  case (Cons y ys)
  then have "y \<in> set xs" by (metis list.set_intros(1) set_mset_mset)
  then obtain i where i: "i < length xs" "xs ! i = y" by (auto simp: in_set_conv_nth)
  then obtain x xs' where xs: "xs = x # xs'" by (cases xs) auto
  have "add_mset y (mset (take i xs @ drop (Suc i) xs)) = mset xs"
    using mset_remove_nth[OF i(1)] i(2) by simp
  with Cons.prems have "add_mset y (mset ys) = add_mset y (mset (take i xs @ drop (Suc i) xs))"
    by simp
  then have "mset ys = mset (take i xs @ drop (Suc i) xs)" by simp
  from Cons.IH[OF this] obtain ks where "range_order ks (take i xs @ drop (Suc i) xs) = ys" ..
  with i xs have "range_order (i # ks) xs = y # ys" by (simp add: Let_def)
  then show ?case ..
qed

subsection \<open>The two switches\<close>

lemma soft_read:
  "(case string_assertion v of (s, ok) \<Rightarrow> (t, if ok then s else d)) =
     (t, case v of Some (AnyString s) \<Rightarrow> s | _ \<Rightarrow> d)"
  by (cases v rule: string_assertion.cases) simp_all

lemma soft_read_image:
  "(case string_assertion v of
      (path, ok) \<Rightarrow>
        if ok then (t, path)
        else (case string_assertion w of (md5, ok) \<Rightarrow> if ok then (t, md5) else (t, d))) =
   (t, case v of Some (AnyString path) \<Rightarrow> path
       | _ \<Rightarrow> (case w of Some (AnyString md5) \<Rightarrow> md5 | _ \<Rightarrow> d))"
proof (cases v rule: string_assertion.cases)
  case (1 s)
  then show ?thesis by simp
qed (cases w rule: string_assertion.cases; simp)+

lemma soft_read_label:
  "fst (case string_assertion v of (label, ok) \<Rightarrow> (t, f label)) = t"
  by (cases "string_assertion v") simp

lemma distinct_first: "distinct (x # xs) \<Longrightarrow> \<forall>y\<in>set xs. y \<noteq> x"
  by auto

lemma distinct_last: "distinct (xs @ [y]) \<Longrightarrow> \<forall>x\<in>set xs. y \<noteq> x"
  by auto

lemma type_switch_image:
  assumes "compiles c" and "Message.Type m = MessageTypeImage c"
  shows "type_switch c m =
     (ChatLabTypeImage,
      case Contents m ''path'' of
        Some (AnyString path) \<Rightarrow> path
      | _ \<Rightarrow> (case Contents m ''md5'' of Some (AnyString md5) \<Rightarrow> md5 | _ \<Rightarrow> placeholder_image))"
proof -
  from assms(1) have "distinct (MessageTypeText c # tl (primary_codes c))"
    by (simp add: compiles_def primary_codes_def)
  from distinct_first [OF this] have "MessageTypeImage c \<noteq> MessageTypeText c"
    by (simp add: primary_codes_def)
  with assms(2) show ?thesis
    by (simp add: type_switch_def Let_def soft_read_image)
qed

lemma type_switch_share:
  assumes "compiles c" and "Message.Type m = MessageTypeShare c"
  shows "type_switch c m = share_switch c m (Message.Content m)"
proof -
  from assms(1) have "distinct (butlast (primary_codes c) @ [MessageTypeShare c])"
    by (simp add: compiles_def primary_codes_def)
  from distinct_last [OF this]
  have "\<forall>x\<in>set (butlast (primary_codes c)). MessageTypeShare c \<noteq> x" .
  then have
    "MessageTypeShare c \<noteq> MessageTypeText c" "MessageTypeShare c \<noteq> MessageTypeImage c"
    "MessageTypeShare c \<noteq> MessageTypeVoice c" "MessageTypeShare c \<noteq> MessageTypeVideo c"
    "MessageTypeShare c \<noteq> MessageTypeAnimation c" "MessageTypeShare c \<noteq> MessageTypeLocation c"
    "MessageTypeShare c \<noteq> MessageTypeCard c" "MessageTypeShare c \<noteq> MessageTypeVOIP c"
    "MessageTypeShare c \<noteq> MessageTypeSystem c"
    by (simp_all add: primary_codes_def)
  with assms(2) show ?thesis
    by (simp add: type_switch_def Let_def)
qed

lemma share_switch_link:
  assumes "compiles c"
    and "Message.SubType m = MessageSubTypeLink c \<or> Message.SubType m = MessageSubTypeLink2 c"
  shows "share_switch c m content =
     (ChatLabTypeLink, case Contents m ''url'' of Some (AnyString url) \<Rightarrow> url | _ \<Rightarrow> content)"
proof -
  from assms(1) have "distinct (MessageSubTypeFile c # tl (sub_codes c))"
    by (simp add: compiles_def sub_codes_def)
  from distinct_first [OF this]
  have ne: "MessageSubTypeLink c \<noteq> MessageSubTypeFile c"
    "MessageSubTypeLink2 c \<noteq> MessageSubTypeFile c"
    by (simp_all add: sub_codes_def)
  from assms(2) show ?thesis
  proof
    assume "Message.SubType m = MessageSubTypeLink c"
    with ne(1) show ?thesis by (simp add: share_switch_def Let_def soft_read)
  next
    assume "Message.SubType m = MessageSubTypeLink2 c"
    with ne(2) show ?thesis by (simp add: share_switch_def Let_def soft_read)
  qed
qed

lemma share_switch_default:
  assumes "Message.SubType m \<notin> set (sub_codes c)"
  shows "share_switch c m content = (ChatLabTypeShare, content)"
  using assms by (simp add: share_switch_def sub_codes_def Let_def)

lemma type_switch_other:
  assumes "Message.Type m \<notin> set (primary_codes c)"
  shows "type_switch c m = (ChatLabTypeOther, Message.Content m)"
  using assms by (simp add: type_switch_def primary_codes_def Let_def)

lemma share_switch_valid: "fst (share_switch c m content) \<in> set ChatLabTypes"
  by (simp add: share_switch_def Let_def soft_read ChatLabTypes_def)

lemma type_switch_valid: "fst (type_switch c m) \<in> set ChatLabTypes"
proof (cases "Message.Type m = MessageTypeShare c")
  case True
  have "fst (type_switch c m) = fst (share_switch c m (Message.Content m))
      \<or> fst (type_switch c m) \<in> set ChatLabTypes"
    by (simp add: type_switch_def Let_def soft_read soft_read_image soft_read_label
        ChatLabTypes_def)
  then show ?thesis using share_switch_valid [of c m "Message.Content m"] by auto
next
  case False
  then show ?thesis
    by (simp add: type_switch_def Let_def soft_read soft_read_image soft_read_label
        ChatLabTypes_def)
qed

lemma not_a_string_read: "not_a_string v \<Longrightarrow> string_assertion v = ('''', False)"
  by (cases v rule: string_assertion.cases) (simp_all add: not_a_string_def)

lemma primary_later_earlier:
  assumes "compiles c"
  shows "MessageTypeImage c \<noteq> MessageTypeText c"
    and "MessageTypeAnimation c \<noteq> MessageTypeText c \<and> MessageTypeAnimation c \<noteq> MessageTypeImage c \<and>
         MessageTypeAnimation c \<noteq> MessageTypeVoice c \<and> MessageTypeAnimation c \<noteq> MessageTypeVideo c"
    and "MessageTypeLocation c \<noteq> MessageTypeText c \<and> MessageTypeLocation c \<noteq> MessageTypeImage c \<and>
         MessageTypeLocation c \<noteq> MessageTypeVoice c \<and> MessageTypeLocation c \<noteq> MessageTypeVideo c \<and>
         MessageTypeLocation c \<noteq> MessageTypeAnimation c"
proof -
  from assms have "distinct (rev (primary_codes c))"
    by (simp add: compiles_def)
  then show "MessageTypeImage c \<noteq> MessageTypeText c"
    and "MessageTypeAnimation c \<noteq> MessageTypeText c \<and> MessageTypeAnimation c \<noteq> MessageTypeImage c \<and>
         MessageTypeAnimation c \<noteq> MessageTypeVoice c \<and> MessageTypeAnimation c \<noteq> MessageTypeVideo c"
    and "MessageTypeLocation c \<noteq> MessageTypeText c \<and> MessageTypeLocation c \<noteq> MessageTypeImage c \<and>
         MessageTypeLocation c \<noteq> MessageTypeVoice c \<and> MessageTypeLocation c \<noteq> MessageTypeVideo c \<and>
         MessageTypeLocation c \<noteq> MessageTypeAnimation c"
    by (simp_all add: primary_codes_def)
qed

lemma sub_later_earlier:
  assumes "compiles c"
  shows "\<forall>x \<in> {MessageSubTypeLink c, MessageSubTypeLink2 c}. x \<noteq> MessageSubTypeFile c"
    and "\<forall>x \<in> {MessageSubTypeMergeForward c, MessageSubTypeNote c, MessageSubTypeChatRoomNotice c}.
           x \<noteq> MessageSubTypeFile c \<and> x \<noteq> MessageSubTypeLink c \<and> x \<noteq> MessageSubTypeLink2 c"
    and "\<forall>x \<in> {MessageSubTypeMiniProgram c, MessageSubTypeMiniProgram2 c}.
           x \<noteq> MessageSubTypeFile c \<and> x \<noteq> MessageSubTypeLink c \<and> x \<noteq> MessageSubTypeLink2 c \<and>
           x \<noteq> MessageSubTypeMergeForward c \<and> x \<noteq> MessageSubTypeNote c \<and>
           x \<noteq> MessageSubTypeChatRoomNotice c"
    and "MessageSubTypeMusic c \<noteq> MessageSubTypeFile c \<and> MessageSubTypeMusic c \<noteq> MessageSubTypeLink c \<and>
         MessageSubTypeMusic c \<noteq> MessageSubTypeLink2 c \<and>
         MessageSubTypeMusic c \<noteq> MessageSubTypeMergeForward c \<and>
         MessageSubTypeMusic c \<noteq> MessageSubTypeNote c \<and>
         MessageSubTypeMusic c \<noteq> MessageSubTypeChatRoomNotice c \<and>
         MessageSubTypeMusic c \<noteq> MessageSubTypeMiniProgram c \<and>
         MessageSubTypeMusic c \<noteq> MessageSubTypeMiniProgram2 c \<and>
         MessageSubTypeMusic c \<noteq> MessageSubTypeQuote c \<and> MessageSubTypeMusic c \<noteq> MessageSubTypePat c"
proof -
  from assms have "distinct (rev (sub_codes c))"
    by (simp add: compiles_def)
  then show "\<forall>x \<in> {MessageSubTypeLink c, MessageSubTypeLink2 c}. x \<noteq> MessageSubTypeFile c"
    and "\<forall>x \<in> {MessageSubTypeMergeForward c, MessageSubTypeNote c, MessageSubTypeChatRoomNotice c}.
           x \<noteq> MessageSubTypeFile c \<and> x \<noteq> MessageSubTypeLink c \<and> x \<noteq> MessageSubTypeLink2 c"
    and "\<forall>x \<in> {MessageSubTypeMiniProgram c, MessageSubTypeMiniProgram2 c}.
           x \<noteq> MessageSubTypeFile c \<and> x \<noteq> MessageSubTypeLink c \<and> x \<noteq> MessageSubTypeLink2 c \<and>
           x \<noteq> MessageSubTypeMergeForward c \<and> x \<noteq> MessageSubTypeNote c \<and>
           x \<noteq> MessageSubTypeChatRoomNotice c"
    and "MessageSubTypeMusic c \<noteq> MessageSubTypeFile c \<and> MessageSubTypeMusic c \<noteq> MessageSubTypeLink c \<and>
         MessageSubTypeMusic c \<noteq> MessageSubTypeLink2 c \<and>
         MessageSubTypeMusic c \<noteq> MessageSubTypeMergeForward c \<and>
         MessageSubTypeMusic c \<noteq> MessageSubTypeNote c \<and>
         MessageSubTypeMusic c \<noteq> MessageSubTypeChatRoomNotice c \<and>
         MessageSubTypeMusic c \<noteq> MessageSubTypeMiniProgram c \<and>
         MessageSubTypeMusic c \<noteq> MessageSubTypeMiniProgram2 c \<and>
         MessageSubTypeMusic c \<noteq> MessageSubTypeQuote c \<and> MessageSubTypeMusic c \<noteq> MessageSubTypePat c"
    by (simp_all add: sub_codes_def)
qed

lemma type_switch_image_fallback:
  assumes "compiles c" and "Message.Type m = MessageTypeImage c"
    and "not_a_string (Contents m ''path'')" and "not_a_string (Contents m ''md5'')"
  shows "type_switch c m = (ChatLabTypeImage, placeholder_image)"
  using primary_later_earlier(1) [OF assms(1)] assms(2)
    not_a_string_read [OF assms(3)] not_a_string_read [OF assms(4)]
  by (simp add: type_switch_def Let_def)

lemma type_switch_animation_fallback:
  assumes "compiles c" and "Message.Type m = MessageTypeAnimation c"
    and "not_a_string (Contents m ''cdnurl'')"
  shows "type_switch c m = (ChatLabTypeEmoji, placeholder_emoji)"
  using primary_later_earlier(2) [OF assms(1)] assms(2) not_a_string_read [OF assms(3)]
  by (simp add: type_switch_def Let_def)

lemma type_switch_location_fallback:
  assumes "compiles c" and "Message.Type m = MessageTypeLocation c"
    and "not_a_string (Contents m ''label'') \<or> Contents m ''label'' = Some (AnyString '''')"
  shows "type_switch c m = (ChatLabTypeLocation, placeholder_location)"
proof -
  from assms(3) have "fst (string_assertion (Contents m ''label'')) = ''''"
    by (auto simp: not_a_string_read)
  then have "(case string_assertion (Contents m ''label'') of
          (label, _) \<Rightarrow>
            (ChatLabTypeLocation, if label \<noteq> '''' then label else placeholder_location)) =
        (ChatLabTypeLocation, placeholder_location)"
    by (cases "string_assertion (Contents m ''label'')") simp
  with primary_later_earlier(3) [OF assms(1)] assms(2) show ?thesis
    by (simp add: type_switch_def Let_def)
qed

lemma share_switch_fallback:
  assumes "compiles c"
  shows "Message.SubType m = MessageSubTypeFile c \<Longrightarrow> not_a_string (Contents m ''title'') \<Longrightarrow>
           share_switch c m content = (ChatLabTypeFile, content)"
    and "Message.SubType m = MessageSubTypeLink c \<or> Message.SubType m = MessageSubTypeLink2 c \<Longrightarrow>
           not_a_string (Contents m ''url'') \<Longrightarrow>
           share_switch c m content = (ChatLabTypeLink, content)"
    and "Message.SubType m = MessageSubTypeMergeForward c \<or> Message.SubType m = MessageSubTypeNote c
           \<or> Message.SubType m = MessageSubTypeChatRoomNotice c \<Longrightarrow>
           not_a_string (Contents m ''title'') \<Longrightarrow>
           share_switch c m content = (ChatLabTypeForward, content)"
    and "Message.SubType m = MessageSubTypeMiniProgram c
           \<or> Message.SubType m = MessageSubTypeMiniProgram2 c \<Longrightarrow>
           not_a_string (Contents m ''title'') \<Longrightarrow>
           share_switch c m content = (ChatLabTypeShare, content)"
    and "Message.SubType m = MessageSubTypeMusic c \<Longrightarrow> not_a_string (Contents m ''url'') \<Longrightarrow>
           share_switch c m content = (ChatLabTypeShare, content)"
proof -
  show "share_switch c m content = (ChatLabTypeFile, content)"
    if "Message.SubType m = MessageSubTypeFile c" "not_a_string (Contents m ''title'')"
    using that(1) not_a_string_read [OF that(2)]
    by (simp add: share_switch_def Let_def)
  show "share_switch c m content = (ChatLabTypeLink, content)"
    if "Message.SubType m = MessageSubTypeLink c \<or> Message.SubType m = MessageSubTypeLink2 c"
      "not_a_string (Contents m ''url'')"
  proof -
    from that(1) sub_later_earlier(1) [OF assms]
    have "Message.SubType m \<noteq> MessageSubTypeFile c" by blast
    with that(1) not_a_string_read [OF that(2)] show ?thesis
      by (simp add: share_switch_def Let_def)
  qed
  show "share_switch c m content = (ChatLabTypeForward, content)"
    if "Message.SubType m = MessageSubTypeMergeForward c \<or> Message.SubType m = MessageSubTypeNote c
           \<or> Message.SubType m = MessageSubTypeChatRoomNotice c"
      "not_a_string (Contents m ''title'')"
  proof -
    from that(1) sub_later_earlier(2) [OF assms]
    have "Message.SubType m \<noteq> MessageSubTypeFile c \<and> Message.SubType m \<noteq> MessageSubTypeLink c
        \<and> Message.SubType m \<noteq> MessageSubTypeLink2 c" by blast
    with that(1) not_a_string_read [OF that(2)] show ?thesis
      by (simp add: share_switch_def Let_def)
  qed
  show "share_switch c m content = (ChatLabTypeShare, content)"
    if "Message.SubType m = MessageSubTypeMiniProgram c
           \<or> Message.SubType m = MessageSubTypeMiniProgram2 c"
      "not_a_string (Contents m ''title'')"
  proof -
    from that(1) sub_later_earlier(3) [OF assms]
    have "Message.SubType m \<noteq> MessageSubTypeFile c \<and> Message.SubType m \<noteq> MessageSubTypeLink c
        \<and> Message.SubType m \<noteq> MessageSubTypeLink2 c
        \<and> Message.SubType m \<noteq> MessageSubTypeMergeForward c
        \<and> Message.SubType m \<noteq> MessageSubTypeNote c
        \<and> Message.SubType m \<noteq> MessageSubTypeChatRoomNotice c" by blast
    with that(1) not_a_string_read [OF that(2)] show ?thesis
      by (simp add: share_switch_def Let_def)
  qed
  show "share_switch c m content = (ChatLabTypeShare, content)"
    if "Message.SubType m = MessageSubTypeMusic c" "not_a_string (Contents m ''url'')"
    using that(1) sub_later_earlier(4) [OF assms] not_a_string_read [OF that(2)]
    by (simp add: share_switch_def Let_def)
qed

subsection \<open>The member map\<close>

lemma map_of_collect_member:
  "map_of (collect_member g m mm) k =
     (case map_of mm k of
        Some v \<Rightarrow> Some v
      | None \<Rightarrow> if Message.Sender m = k then Some (member g m) else None)"
  by (auto simp: collect_member_def map_add_def split: option.split)

lemma distinct_collect_member:
  "distinct (map fst mm) \<Longrightarrow> distinct (map fst (collect_member g m mm))"
  by (auto simp: collect_member_def map_of_eq_None_iff)

lemma keys_collect_member:
  "fst ` set (collect_member g m mm) = insert (Message.Sender m) (fst ` set mm)"
  by (auto simp: collect_member_def map_of_eq_None_iff)

lemma PlatformID_member [simp]: "PlatformID (member g m) = Message.Sender m"
  by (simp add: member_def Let_def)

lemma member_fields:
  "ChatLabMember.AccountName (member g m) = senderName m"
  "ChatLabMember.GroupNickname (member g m) = (if g then senderName m else '''')"
  by (simp_all add: member_def Let_def)

lemma ids_collect_member:
  "\<forall>(k, v) \<in> set mm. PlatformID v = k \<Longrightarrow>
   \<forall>(k, v) \<in> set (collect_member g m mm). PlatformID v = k"
  by (auto simp: collect_member_def)

lemma distinct_collect_members:
  "distinct (map fst mm) \<Longrightarrow> distinct (map fst (collect_members g ms mm))"
  by (induction ms arbitrary: mm) (simp_all add: distinct_collect_member)

lemma keys_collect_members:
  "fst ` set (collect_members g ms mm) = fst ` set mm \<union> Message.Sender ` set ms"
  by (induction ms arbitrary: mm) (auto simp: keys_collect_member)

lemma ids_collect_members:
  "\<forall>(k, v) \<in> set mm. PlatformID v = k \<Longrightarrow>
   \<forall>(k, v) \<in> set (collect_members g ms mm). PlatformID v = k"
proof (induction ms arbitrary: mm)
  case Nil
  then show ?case by simp
next
  case (Cons m ms)
  from Cons.prems have "\<forall>(k, v) \<in> set (collect_member g m mm). PlatformID v = k"
    by (rule ids_collect_member)
  then show ?case using Cons.IH by simp
qed

lemma map_of_collect_members:
  "map_of (collect_members g ms mm) k =
     (case map_of mm k of
        Some v \<Rightarrow> Some v
      | None \<Rightarrow> map_option (member g) (first_message k ms))"
proof (induction ms arbitrary: mm)
  case Nil
  show ?case by (simp add: first_message_def split: option.split)
next
  case (Cons m ms)
  show ?case
    by (simp add: Cons.IH map_of_collect_member first_message_def split: option.split)
qed

lemma roster_lookup:
  "map_of (collect_members g ms []) k = map_option (member g) (first_message k ms)"
  by (simp add: map_of_collect_members)

lemma roster_distinct: "distinct (map fst (collect_members g ms []))"
  by (rule distinct_collect_members) simp

lemma roster_entry_first:
  assumes "(k, r) \<in> set (collect_members g ms [])"
  shows "\<exists>f. first_message k ms = Some f \<and> r = member g f \<and> Message.Sender f = k"
proof -
  from assms roster_distinct have "map_of (collect_members g ms []) k = Some r"
    by (rule map_of_is_SomeI [rotated])
  then obtain f where f: "first_message k ms = Some f" "r = member g f"
    by (auto simp: roster_lookup)
  from f(1) have "Message.Sender f = k"
    by (auto simp: first_message_def find_Some_iff)
  with f show ?thesis by blast
qed

lemma range_order_ids:
  "map PlatformID (map snd (range_order order (collect_members g ms []))) =
   map fst (range_order order (collect_members g ms []))"
proof -
  have "\<forall>(k, v) \<in> set (collect_members g ms []). PlatformID v = k"
    by (rule ids_collect_members) simp
  then have "\<forall>(k, v) \<in> set (range_order order (collect_members g ms [])). PlatformID v = k"
    by (simp only: set_range_order)
  then show ?thesis by auto
qed

lemma range_order_distinct:
  "distinct (map fst (range_order order (collect_members g ms [])))"
proof -
  have "mset (map fst (range_order order (collect_members g ms []))) =
        mset (map fst (collect_members g ms []))"
    by (simp add: mset_range_order)
  from mset_eq_imp_distinct_iff [OF this] roster_distinct [of g ms]
  show ?thesis by blast
qed

lemma roster_ids:
  "set (map fst (range_order order (collect_members g ms []))) = set (map Message.Sender ms)"
  using keys_collect_members [of g ms "[]"] by (simp add: set_range_order)

lemma roster_members:
  assumes "r \<in> set (map snd (range_order order (collect_members g ms [])))"
  shows "\<exists>f. first_message (PlatformID r) ms = Some f \<and> r = member g f"
proof -
  from assms obtain k where "(k, r) \<in> set (collect_members g ms [])"
    by (auto simp: set_range_order)
  from roster_entry_first [OF this] show ?thesis by auto
qed

lemma find_SomeD: "find P xs = Some x \<Longrightarrow> x \<in> set xs \<and> P x"
  by (induction xs) (auto split: if_splits)

lemma first_message_index:
  assumes "i < length ms" and "\<forall>j<i. Message.Sender (ms ! j) \<noteq> Message.Sender (ms ! i)"
  shows "first_message (Message.Sender (ms ! i)) ms = Some (ms ! i)"
  using assms unfolding first_message_def find_Some_iff by blast

lemma first_message_exists:
  assumes "i < length ms"
  shows "\<exists>f. first_message (Message.Sender (ms ! i)) ms = Some f"
proof (cases "first_message (Message.Sender (ms ! i)) ms")
  case None
  then have "\<not> (\<exists>x. x \<in> set ms \<and> Message.Sender x = Message.Sender (ms ! i))"
    unfolding first_message_def find_None_iff .
  moreover from assms have "ms ! i \<in> set ms" by simp
  ultimately show ?thesis by blast
qed blast

lemma roster_entry_of_result:
  assumes r: "ConvertToChatLab c now order (map Some ms) tid tname = Inr cl"
    and f: "first_message s ms = Some f"
  shows "roster_entry cl s = Some (member (isGroup tid) f)"
proof -
  let ?R = "map snd (range_order order (collect_members (isGroup tid) ms []))"
  from f have sf: "Message.Sender f = s" "f \<in> set ms"
    by (auto simp: first_message_def find_Some_iff)
  then have "s \<in> set (map Message.Sender ms)" by auto
  then have "s \<in> set (map PlatformID ?R)"
    by (simp only: range_order_ids roster_ids)
  then have "\<not> find (\<lambda>r. PlatformID r = s) ?R = None"
    unfolding find_None_iff by auto
  then obtain x where x: "find (\<lambda>r. PlatformID r = s) ?R = Some x" by blast
  then have "x \<in> set ?R" "PlatformID x = s"
    by (auto dest: find_SomeD simp del: set_map)
  from roster_members [OF this(1)] this(2) f have "x = member (isGroup tid) f" by auto
  with x show ?thesis
    by (simp only: roster_entry_def Members_of_result [OF r])
qed

lemma exported_of_result:
  "ConvertToChatLab c now order (map Some ms) tid tname = Inr cl \<Longrightarrow> i < length ms \<Longrightarrow>
   exported cl i = type_switch c (ms ! i)"
  by (simp add: exported_def Messages_of_result clMsg_fields)

subsection \<open>Running the model\<close>

lemma compiles_sample_codes: "compiles sample_codes"
  by (simp add: compiles_def primary_codes_def sub_codes_def sample_codes_def)

lemma isGroup_alice: "\<not> isGroup ''wxid_alice''"
  by (simp add: isGroup_def)

lemma isGroup_room: "isGroup ''12345@chatroom''"
  by (simp add: isGroup_def)

lemma clMsg_hello:
  "clMsg sample_codes g msg_hello =
     \<lparr>ChatLabMessage.Sender = ''wxid_alice'', ChatLabMessage.AccountName = ''Alice'',
      ChatLabMessage.GroupNickname = (if g then ''Alice'' else ''''),
      Timestamp = 1700000300, ChatLabMessage.Type = 0, ChatLabMessage.Content = ''hello''\<rparr>"
  by (simp add: clMsg_def type_switch_def sample_codes_def msg_hello_def senderName_def
      ChatLabTypeText_def)

lemma clMsg_image:
  "clMsg sample_codes g msg_image =
     \<lparr>ChatLabMessage.Sender = ''wxid_me'', ChatLabMessage.AccountName = self_name,
      ChatLabMessage.GroupNickname = (if g then self_name else ''''),
      Timestamp = 1700000100, ChatLabMessage.Type = 1, ChatLabMessage.Content = ''/tmp/a.jpg''\<rparr>"
  by (simp add: clMsg_def type_switch_def sample_codes_def msg_image_def senderName_def
      ChatLabTypeImage_def)

lemma list3_eqI:
  "length xs = 3 \<Longrightarrow> xs ! 0 = a \<Longrightarrow> xs ! 1 = b \<Longrightarrow> xs ! 2 = c \<Longrightarrow> xs = [a, b, c]"
  by (intro nth_equalityI) (auto simp: less_Suc_eq numeral_3_eq_3 numeral_2_eq_2)

lemma insert_twice: "insert a (insert b (insert a A)) = insert a (insert b A)"
  by blast

section \<open>The claims\<close>

subsection \<open>Image messages\<close>

text \<open>
  Claim C1, as the spec states it, fails: an image message without a \<open>path\<close> and without an
  \<open>md5\<close> attribute gets the content \<^verbatim>\<open>5B E5 9B BE E7 89 87 5D\<close>, the UTF-8 bytes of the
  bracketed Chinese word for picture that line 118 writes, and not the ASCII text
  \<^verbatim>\<open>[image]\<close>.
\<close>

theorem image_placeholder_counterexample:
  "Message.Type msg_image_bare = MessageTypeImage sample_codes \<and>
   Contents msg_image_bare ''path'' = None \<and> Contents msg_image_bare ''md5'' = None \<and>
   ConvertToChatLab sample_codes 0 [] [Some msg_image_bare] ''wxid_alice'' ''Alice'' =
     Inr \<lparr>ChatLab = \<lparr>Version = ''0.0.1'', ExportedAt = 0, Generator = ''Chatlog'',
                      Description = ''''\<rparr>,
          Meta = \<lparr>Name = ''Alice'', Platform = ''wechat'', ChatLabMeta.Type = ''private'',
                  GroupID = '''', GroupAvatar = ''''\<rparr>,
          Members = Slice [\<lparr>PlatformID = ''wxid_alice'', ChatLabMember.AccountName = ''Alice'',
                            ChatLabMember.GroupNickname = '''', Aliases = NilSlice,
                            Avatar = ''''\<rparr>],
          Messages = Slice [\<lparr>ChatLabMessage.Sender = ''wxid_alice'',
                             ChatLabMessage.AccountName = ''Alice'',
                             ChatLabMessage.GroupNickname = '''',
                             Timestamp = 1700000200,
                             ChatLabMessage.Type = 1,
                             ChatLabMessage.Content =
                               [CHR ''['', CHR 0xE5, CHR 0x9B, CHR 0xBE, CHR 0xE7, CHR 0x89,
                                CHR 0x87, CHR '']'']\<rparr>]\<rparr> \<and>
   [CHR ''['', CHR 0xE5, CHR 0x9B, CHR 0xBE, CHR 0xE7, CHR 0x89, CHR 0x87, CHR '']''] \<noteq> ''[image]''"
proof -
  have "ConvertToChatLab sample_codes 0 [] (map Some [msg_image_bare]) ''wxid_alice'' ''Alice'' =
     Inr \<lparr>ChatLab = header 0, Meta = meta ''wxid_alice'' ''Alice'',
          Members = Slice (map snd (range_order [] (collect_members (isGroup ''wxid_alice'') [msg_image_bare] []))),
          Messages = Slice (map (clMsg sample_codes (isGroup ''wxid_alice'')) [msg_image_bare])\<rparr>"
    by (rule ConvertToChatLab_Some)
  then show ?thesis
    by (simp add: run_defs msg_image_bare_def placeholder_image_def ChatLabTypeImage_def)
qed

text \<open>
  Claim C1, amended. For every message whose primary type is image, the export type is
  \<^const>\<open>ChatLabTypeImage\<close> and the content is the \<open>path\<close> attribute when it is a string,
  otherwise the \<open>md5\<close> attribute when it is a string, otherwise the placeholder
  \<^const>\<open>placeholder_image\<close> of line 118.
\<close>

theorem image_messages:
  assumes "compiles c"
  shows "\<exists>cl. ConvertToChatLab c now order (map Some ms) talkerID talkerName = Inr cl \<and>
     (\<forall>i<length ms. Message.Type (ms ! i) = MessageTypeImage c \<longrightarrow>
        ChatLabMessage.Type (elems (Messages cl) ! i) = ChatLabTypeImage \<and>
        ChatLabMessage.Content (elems (Messages cl) ! i) =
          (case Contents (ms ! i) ''path'' of
             Some (AnyString path) \<Rightarrow> path
           | _ \<Rightarrow> (case Contents (ms ! i) ''md5'' of
                     Some (AnyString md5) \<Rightarrow> md5
                   | _ \<Rightarrow> placeholder_image)))"
  by (simp add: ConvertToChatLab_Some clMsg_fields type_switch_image [OF assms])

text \<open>
  Three image messages: one with a path, one whose path is nil and whose md5 is a string,
  one without attributes.
\<close>

theorem image_messages_witness:
  "compiles sample_codes \<and>
   (\<exists>cl. ConvertToChatLab sample_codes 0 [] (map Some [msg_image, msg_image_md5, msg_image_bare])
            ''wxid_alice'' ''Alice'' = Inr cl \<and>
      ChatLabMessage.Type (elems (Messages cl) ! 0) = 1 \<and>
      ChatLabMessage.Content (elems (Messages cl) ! 0) = ''/tmp/a.jpg'' \<and>
      ChatLabMessage.Type (elems (Messages cl) ! 1) = 1 \<and>
      ChatLabMessage.Content (elems (Messages cl) ! 1) = ''d41d8cd9'' \<and>
      ChatLabMessage.Type (elems (Messages cl) ! 2) = 1 \<and>
      ChatLabMessage.Content (elems (Messages cl) ! 2) = placeholder_image)"
proof -
  let ?ms = "[msg_image, msg_image_md5, msg_image_bare]"
  from image_messages [OF compiles_sample_codes, of 0 "[]" ?ms "''wxid_alice''" "''Alice''"]
  obtain cl where r: "ConvertToChatLab sample_codes 0 [] (map Some ?ms) ''wxid_alice'' ''Alice'' = Inr cl"
    and e: "\<forall>i<length ?ms. Message.Type (?ms ! i) = MessageTypeImage sample_codes \<longrightarrow>
        ChatLabMessage.Type (elems (Messages cl) ! i) = ChatLabTypeImage \<and>
        ChatLabMessage.Content (elems (Messages cl) ! i) =
          (case Contents (?ms ! i) ''path'' of
             Some (AnyString path) \<Rightarrow> path
           | _ \<Rightarrow> (case Contents (?ms ! i) ''md5'' of
                     Some (AnyString md5) \<Rightarrow> md5
                   | _ \<Rightarrow> placeholder_image))"
    by blast
  from e [rule_format, of 0] e [rule_format, of 1] e [rule_format, of 2]
  have "ChatLabMessage.Type (elems (Messages cl) ! 0) = 1 \<and>
      ChatLabMessage.Content (elems (Messages cl) ! 0) = ''/tmp/a.jpg'' \<and>
      ChatLabMessage.Type (elems (Messages cl) ! 1) = 1 \<and>
      ChatLabMessage.Content (elems (Messages cl) ! 1) = ''d41d8cd9'' \<and>
      ChatLabMessage.Type (elems (Messages cl) ! 2) = 1 \<and>
      ChatLabMessage.Content (elems (Messages cl) ! 2) = placeholder_image"
    by (simp add: msg_defs sample_codes_def ChatLabTypeImage_def)
  with r compiles_sample_codes show ?thesis by blast
qed

subsection \<open>Chat type\<close>

text \<open>
  Claim C2. The kind is \<open>group\<close> and the group identifier is the whole conversation
  identifier when the identifier is longer than 9 bytes and ends in \<open>@chatroom\<close>; for every
  other identifier the kind is \<open>private\<close> and the group identifier is empty.
\<close>

theorem chat_type_inferred:
  "\<exists>cl. ConvertToChatLab c now order (map Some ms) talkerID talkerName = Inr cl \<and>
     (if 9 < length talkerID \<and> (\<exists>p. talkerID = p @ ''@chatroom'')
      then ChatLabMeta.Type (Meta cl) = ''group'' \<and> GroupID (Meta cl) = talkerID
      else ChatLabMeta.Type (Meta cl) = ''private'' \<and> GroupID (Meta cl) = '''')"
proof (cases "isGroup talkerID")
  case True
  then have "9 < length talkerID \<and> (\<exists>p. talkerID = p @ ''@chatroom'')"
    using isGroup_iff by blast
  with True show ?thesis by (simp add: ConvertToChatLab_Some meta_def)
next
  case False
  then have "\<not> (9 < length talkerID \<and> (\<exists>p. talkerID = p @ ''@chatroom''))"
    using isGroup_iff by blast
  with False show ?thesis by (simp add: ConvertToChatLab_Some meta_def)
qed

text \<open>The two identifiers of the spec: a chat room and a contact.\<close>

theorem chat_type_inferred_witness:
  "(\<exists>cl. ConvertToChatLab sample_codes 0 [] (map Some []) ''12345@chatroom'' ''Team'' = Inr cl \<and>
      ChatLabMeta.Type (Meta cl) = ''group'' \<and> GroupID (Meta cl) = ''12345@chatroom'')
 \<and> (\<exists>cl. ConvertToChatLab sample_codes 0 [] (map Some []) ''wxid_abc123'' ''Bob'' = Inr cl \<and>
      ChatLabMeta.Type (Meta cl) = ''private'' \<and> GroupID (Meta cl) = '''')"
proof -
  have "\<exists>p. ''12345@chatroom'' = p @ ''@chatroom''"
    by (rule exI [of _ "''12345''"]) simp
  then have g: "9 < length ''12345@chatroom'' \<and> (\<exists>p. ''12345@chatroom'' = p @ ''@chatroom'')"
    by simp
  have p: "\<not> (9 < length ''wxid_abc123'' \<and> (\<exists>p. ''wxid_abc123'' = p @ ''@chatroom''))"
  proof
    assume "9 < length ''wxid_abc123'' \<and> (\<exists>p. ''wxid_abc123'' = p @ ''@chatroom'')"
    then obtain p where "''wxid_abc123'' = p @ ''@chatroom''" by blast
    then have "last ''wxid_abc123'' = last (p @ ''@chatroom'')" by (rule arg_cong)
    then show False by simp
  qed
  from chat_type_inferred [of sample_codes 0 "[]" "[]" "''12345@chatroom''" "''Team''"]
  have a: "\<exists>cl. ConvertToChatLab sample_codes 0 [] (map Some []) ''12345@chatroom'' ''Team'' = Inr cl \<and>
      ChatLabMeta.Type (Meta cl) = ''group'' \<and> GroupID (Meta cl) = ''12345@chatroom''"
    by (simp only: g if_True simp_thms)
  from chat_type_inferred [of sample_codes 0 "[]" "[]" "''wxid_abc123''" "''Bob''"]
  have b: "\<exists>cl. ConvertToChatLab sample_codes 0 [] (map Some []) ''wxid_abc123'' ''Bob'' = Inr cl \<and>
      ChatLabMeta.Type (Meta cl) = ''private'' \<and> GroupID (Meta cl) = ''''"
    by (simp only: p if_False simp_thms)
  from a b show ?thesis by (rule conjI)
qed

subsection \<open>Messages in input order\<close>

text \<open>
  Claim C3. The output has as many messages as the input, and the i-th output message is
  the export message of the i-th input message: nothing is sorted, dropped or merged.
\<close>

theorem messages_in_input_order:
  "\<exists>cl. ConvertToChatLab c now order (map Some ms) talkerID talkerName = Inr cl \<and>
     len (Messages cl) = length ms \<and>
     (\<forall>i<length ms. elems (Messages cl) ! i = clMsg c (isGroup talkerID) (ms ! i))"
  by (simp add: ConvertToChatLab_Some len_def)

text \<open>
  Three messages, the first and the last equal and the timestamps not ascending: all three
  are kept, in the order given.
\<close>

theorem messages_in_input_order_witness:
  "\<exists>cl. ConvertToChatLab sample_codes 0 [] (map Some [msg_hello, msg_image, msg_hello])
          ''wxid_alice'' ''Alice'' = Inr cl \<and>
        len (Messages cl) = 3 \<and>
        map ChatLabMessage.Content (elems (Messages cl)) = [''hello'', ''/tmp/a.jpg'', ''hello''] \<and>
        map Timestamp (elems (Messages cl)) = [1700000300, 1700000100, 1700000300]"
proof -
  let ?ms = "[msg_hello, msg_image, msg_hello]"
  from messages_in_input_order [of sample_codes 0 "[]" ?ms "''wxid_alice''" "''Alice''"]
  obtain cl where r: "ConvertToChatLab sample_codes 0 [] (map Some ?ms) ''wxid_alice'' ''Alice'' = Inr cl"
    and l: "len (Messages cl) = length ?ms"
    and e: "\<forall>i<length ?ms. elems (Messages cl) ! i = clMsg sample_codes (isGroup ''wxid_alice'') (?ms ! i)"
    by blast
  from l have l3: "length (elems (Messages cl)) = 3" by (simp add: len_def)
  from e have "elems (Messages cl) ! 0 = clMsg sample_codes False msg_hello"
    and "elems (Messages cl) ! 1 = clMsg sample_codes False msg_image"
    and "elems (Messages cl) ! 2 = clMsg sample_codes False msg_hello"
    by (simp_all add: isGroup_alice)
  with l3 have "elems (Messages cl) =
    [clMsg sample_codes False msg_hello, clMsg sample_codes False msg_image,
     clMsg sample_codes False msg_hello]"
    by (intro nth_equalityI) (auto simp: less_Suc_eq numeral_3_eq_3 numeral_2_eq_2)
  then have "map ChatLabMessage.Content (elems (Messages cl)) = [''hello'', ''/tmp/a.jpg'', ''hello'']"
    and "map Timestamp (elems (Messages cl)) = [1700000300, 1700000100, 1700000300]"
    by (simp_all add: clMsg_hello clMsg_image)
  with r l3 show ?thesis by (simp add: len_def)
qed

subsection \<open>The roster\<close>

text \<open>
  Claim C4. Whatever order the map iteration takes, the roster has exactly one member for
  each sender of the input (the platform identifiers are distinct and are the set of
  senders), and the display fields of a member are those resolved from the first message
  of its sender.
\<close>

theorem roster_first_seen:
  "\<exists>cl. ConvertToChatLab c now order (map Some ms) talkerID talkerName = Inr cl \<and>
     distinct (map PlatformID (elems (Members cl))) \<and>
     set (map PlatformID (elems (Members cl))) = set (map Message.Sender ms) \<and>
     (\<forall>r \<in> set (elems (Members cl)).
        \<exists>f. first_message (PlatformID r) ms = Some f \<and>
            ChatLabMember.AccountName r = senderName f \<and>
            ChatLabMember.GroupNickname r = (if isGroup talkerID then senderName f else '''') \<and>
            Aliases r = NilSlice \<and> Avatar r = '''')"
proof -
  let ?R = "map snd (range_order order (collect_members (isGroup talkerID) ms []))"
  have 1: "distinct (map PlatformID ?R)"
    by (simp only: range_order_ids range_order_distinct)
  have 2: "set (map PlatformID ?R) = set (map Message.Sender ms)"
    by (simp only: range_order_ids roster_ids)
  have 3: "\<forall>r \<in> set ?R.
        \<exists>f. first_message (PlatformID r) ms = Some f \<and>
            ChatLabMember.AccountName r = senderName f \<and>
            ChatLabMember.GroupNickname r = (if isGroup talkerID then senderName f else '''') \<and>
            Aliases r = NilSlice \<and> Avatar r = ''''"
  proof
    fix r assume "r \<in> set ?R"
    from roster_members [OF this] obtain f
      where f: "first_message (PlatformID r) ms = Some f" "r = member (isGroup talkerID) f"
      by blast
    from f(2) have "ChatLabMember.AccountName r = senderName f"
      "ChatLabMember.GroupNickname r = (if isGroup talkerID then senderName f else '''')"
      "Aliases r = NilSlice" "Avatar r = ''''"
      by (simp_all add: member_def Let_def)
    with f(1) show "\<exists>f. first_message (PlatformID r) ms = Some f \<and>
            ChatLabMember.AccountName r = senderName f \<and>
            ChatLabMember.GroupNickname r = (if isGroup talkerID then senderName f else '''') \<and>
            Aliases r = NilSlice \<and> Avatar r = ''''"
      by blast
  qed
  from 1 2 3 show ?thesis
    by (simp only: ConvertToChatLab_Some ChatLab.simps elems.simps sum.inject simp_thms ex_simps)
qed

text \<open>
  A chat room where the sender \<open>wxid_me\<close> writes first under the name Carol and later
  without a name: the roster keeps Carol.
\<close>

theorem roster_first_seen_witness:
  "\<exists>cl. ConvertToChatLab sample_codes 0 [1] (map Some [msg_self_named, msg_hello, msg_self_unnamed])
           ''12345@chatroom'' ''Team'' = Inr cl \<and>
      distinct (map PlatformID (elems (Members cl))) \<and>
      set (map PlatformID (elems (Members cl))) = {''wxid_me'', ''wxid_alice''} \<and>
      map PlatformID (elems (Members cl)) = [''wxid_alice'', ''wxid_me''] \<and>
      map ChatLabMember.AccountName (elems (Members cl)) = [''Alice'', ''Carol''] \<and>
      map ChatLabMember.GroupNickname (elems (Members cl)) = [''Alice'', ''Carol'']"
proof -
  let ?ms = "[msg_self_named, msg_hello, msg_self_unnamed]"
  from roster_first_seen [of sample_codes 0 "[1]" ?ms "''12345@chatroom''" "''Team''"]
  obtain cl where r: "ConvertToChatLab sample_codes 0 [1] (map Some ?ms) ''12345@chatroom'' ''Team'' = Inr cl"
    and d: "distinct (map PlatformID (elems (Members cl)))"
    and s: "set (map PlatformID (elems (Members cl))) = set (map Message.Sender ?ms)"
    and e: "\<forall>r \<in> set (elems (Members cl)).
        \<exists>f. first_message (PlatformID r) ?ms = Some f \<and>
            ChatLabMember.AccountName r = senderName f \<and>
            ChatLabMember.GroupNickname r =
              (if isGroup ''12345@chatroom'' then senderName f else '''') \<and>
            Aliases r = NilSlice \<and> Avatar r = ''''"
    by blast
  have k: "Message.Sender msg_self_named = ''wxid_me''" "Message.Sender msg_hello = ''wxid_alice''"
    "Message.Sender msg_self_unnamed = ''wxid_me''"
    by (simp_all add: msg_defs)
  have "set (map Message.Sender ?ms) = {''wxid_me'', ''wxid_alice''}"
    by (simp add: k insert_twice)
  with s have s': "set (map PlatformID (elems (Members cl))) = {''wxid_me'', ''wxid_alice''}"
    by (simp only:)
  have c: "collect_members True ?ms [] =
      [(''wxid_me'', member True msg_self_named), (''wxid_alice'', member True msg_hello)]"
    by (simp add: collect_member_def k)
  have m: "elems (Members cl) = [member True msg_hello, member True msg_self_named]"
  proof -
    from Members_of_result [OF r]
    have "elems (Members cl) = map snd (range_order [1] (collect_members True ?ms []))"
      by (simp only: isGroup_room)
    also have "\<dots> = [member True msg_hello, member True msg_self_named]"
      unfolding c by (simp add: Let_def)
    finally show ?thesis .
  qed
  have i: "map PlatformID (elems (Members cl)) = [''wxid_alice'', ''wxid_me'']"
    by (simp add: m k)
  have f: "first_message ''wxid_alice'' ?ms = Some msg_hello"
    "first_message ''wxid_me'' ?ms = Some msg_self_named"
    by (simp_all add: first_message_def k)
  have n: "senderName msg_hello = ''Alice''" "senderName msg_self_named = ''Carol''"
    by (simp_all add: senderName_def msg_defs)
  have "member True msg_hello \<in> set (elems (Members cl))" by (simp add: m)
  with e obtain f1 where "first_message (PlatformID (member True msg_hello)) ?ms = Some f1"
    and "ChatLabMember.AccountName (member True msg_hello) = senderName f1"
    and "ChatLabMember.GroupNickname (member True msg_hello) =
              (if isGroup ''12345@chatroom'' then senderName f1 else '''')"
    by blast
  then have h: "ChatLabMember.AccountName (member True msg_hello) = ''Alice''"
    "ChatLabMember.GroupNickname (member True msg_hello) = ''Alice''"
    by (simp_all add: k f n isGroup_room)
  have "member True msg_self_named \<in> set (elems (Members cl))" by (simp add: m)
  with e obtain f2 where "first_message (PlatformID (member True msg_self_named)) ?ms = Some f2"
    and "ChatLabMember.AccountName (member True msg_self_named) = senderName f2"
    and "ChatLabMember.GroupNickname (member True msg_self_named) =
              (if isGroup ''12345@chatroom'' then senderName f2 else '''')"
    by blast
  then have "ChatLabMember.AccountName (member True msg_self_named) = ''Carol''"
    "ChatLabMember.GroupNickname (member True msg_self_named) = ''Carol''"
    by (simp_all add: k f n isGroup_room)
  with h have j: "map ChatLabMember.AccountName (elems (Members cl)) = [''Alice'', ''Carol'']"
    "map ChatLabMember.GroupNickname (elems (Members cl)) = [''Alice'', ''Carol'']"
    by (simp_all add: m)
  show ?thesis
    by (rule exI [of _ cl]) (intro conjI r d s' i j)
qed

subsection \<open>The name of the account owner\<close>

text \<open>
  Claim C5, as the spec states it, fails in its roster part: the roster entry of a sender
  is fixed by the first message of that sender (lines 224-233), so a later self-authored
  message without a display name gets the first-person label in its export message only.
\<close>

theorem self_name_roster_counterexample:
  "IsSelf msg_self_unnamed \<and> Message.SenderName msg_self_unnamed = '''' \<and>
   ConvertToChatLab sample_codes 0 [] [Some msg_self_named, Some msg_self_unnamed]
     ''wxid_bob'' ''Bob'' =
     Inr \<lparr>ChatLab = \<lparr>Version = ''0.0.1'', ExportedAt = 0, Generator = ''Chatlog'',
                      Description = ''''\<rparr>,
          Meta = \<lparr>Name = ''Bob'', Platform = ''wechat'', ChatLabMeta.Type = ''private'',
                  GroupID = '''', GroupAvatar = ''''\<rparr>,
          Members = Slice
            [\<lparr>PlatformID = ''wxid_me'', ChatLabMember.AccountName = ''Carol'',
              ChatLabMember.GroupNickname = '''', Aliases = NilSlice, Avatar = ''''\<rparr>],
          Messages = Slice
            [\<lparr>ChatLabMessage.Sender = ''wxid_me'', ChatLabMessage.AccountName = ''Carol'',
              ChatLabMessage.GroupNickname = '''', Timestamp = 1700000800,
              ChatLabMessage.Type = 0, ChatLabMessage.Content = ''first''\<rparr>,
             \<lparr>ChatLabMessage.Sender = ''wxid_me'',
              ChatLabMessage.AccountName = [CHR 0xE6, CHR 0x88, CHR 0x91],
              ChatLabMessage.GroupNickname = '''', Timestamp = 1700000900,
              ChatLabMessage.Type = 0, ChatLabMessage.Content = ''second''\<rparr>]\<rparr> \<and>
   ''Carol'' \<noteq> [CHR 0xE6, CHR 0x88, CHR 0x91] \<and>
   self_name = [CHR 0xE6, CHR 0x88, CHR 0x91]"
  by (simp add: run_two run_defs msg_self_named_def msg_self_unnamed_def self_name_def
      ChatLabTypeText_def)

text \<open>
  Claim C5, amended. Every self-authored message without a display name has the first-person
  label \<^const>\<open>self_name\<close> as the account name of its export message; the roster entry of
  its sender carries the name resolved from the first message of that sender, which is the
  label when this message is the first one of its sender.
\<close>

theorem self_name_used:
  "\<exists>cl. ConvertToChatLab c now order (map Some ms) talkerID talkerName = Inr cl \<and>
     (\<forall>i<length ms. IsSelf (ms ! i) \<and> Message.SenderName (ms ! i) = '''' \<longrightarrow>
        ChatLabMessage.AccountName (elems (Messages cl) ! i) = self_name \<and>
        (\<exists>f r. first_message (Message.Sender (ms ! i)) ms = Some f \<and>
               roster_entry cl (Message.Sender (ms ! i)) = Some r \<and>
               ChatLabMember.AccountName r = senderName f) \<and>
        ((\<forall>j<i. Message.Sender (ms ! j) \<noteq> Message.Sender (ms ! i)) \<longrightarrow>
           (\<exists>r. roster_entry cl (Message.Sender (ms ! i)) = Some r \<and>
                ChatLabMember.AccountName r = self_name)))"
proof -
  obtain cl where r: "ConvertToChatLab c now order (map Some ms) talkerID talkerName = Inr cl"
    by (simp add: ConvertToChatLab_Some)
  have "ChatLabMessage.AccountName (elems (Messages cl) ! i) = self_name \<and>
        (\<exists>f r. first_message (Message.Sender (ms ! i)) ms = Some f \<and>
               roster_entry cl (Message.Sender (ms ! i)) = Some r \<and>
               ChatLabMember.AccountName r = senderName f) \<and>
        ((\<forall>j<i. Message.Sender (ms ! j) \<noteq> Message.Sender (ms ! i)) \<longrightarrow>
           (\<exists>r. roster_entry cl (Message.Sender (ms ! i)) = Some r \<and>
                ChatLabMember.AccountName r = self_name))"
    if i: "i < length ms" and self: "IsSelf (ms ! i)" "Message.SenderName (ms ! i) = ''''" for i
  proof (intro conjI impI)
    from self have n: "senderName (ms ! i) = self_name" by (simp add: senderName_def)
    with i show "ChatLabMessage.AccountName (elems (Messages cl) ! i) = self_name"
      by (simp add: Messages_of_result [OF r] clMsg_fields)
    from first_message_exists [OF i] obtain f
      where f: "first_message (Message.Sender (ms ! i)) ms = Some f" ..
    from roster_entry_of_result [OF r f]
    show "\<exists>f r. first_message (Message.Sender (ms ! i)) ms = Some f \<and>
               roster_entry cl (Message.Sender (ms ! i)) = Some r \<and>
               ChatLabMember.AccountName r = senderName f"
      using f by (simp add: member_fields)
    assume "\<forall>j<i. Message.Sender (ms ! j) \<noteq> Message.Sender (ms ! i)"
    from roster_entry_of_result [OF r first_message_index [OF i this]] n
    show "\<exists>r. roster_entry cl (Message.Sender (ms ! i)) = Some r \<and>
                ChatLabMember.AccountName r = self_name"
      by (simp add: member_fields)
  qed
  with r show ?thesis by blast
qed

text \<open>
  The account owner writes the second and the third message, both without a display name;
  the second message is the first one of that sender.
\<close>

theorem self_name_used_witness:
  "\<exists>cl. ConvertToChatLab sample_codes 0 [] (map Some [msg_hello, msg_image, msg_self_unnamed])
           ''12345@chatroom'' ''Team'' = Inr cl \<and>
      ChatLabMessage.AccountName (elems (Messages cl) ! 1) = self_name \<and>
      ChatLabMessage.AccountName (elems (Messages cl) ! 2) = self_name \<and>
      (\<exists>r. roster_entry cl ''wxid_me'' = Some r \<and> ChatLabMember.AccountName r = self_name)"
proof -
  let ?ms = "[msg_hello, msg_image, msg_self_unnamed]"
  from self_name_used [of sample_codes 0 "[]" ?ms "''12345@chatroom''" "''Team''"]
  obtain cl where r: "ConvertToChatLab sample_codes 0 [] (map Some ?ms) ''12345@chatroom'' ''Team'' = Inr cl"
    and e: "\<forall>i<length ?ms. IsSelf (?ms ! i) \<and> Message.SenderName (?ms ! i) = '''' \<longrightarrow>
        ChatLabMessage.AccountName (elems (Messages cl) ! i) = self_name \<and>
        (\<exists>f r. first_message (Message.Sender (?ms ! i)) ?ms = Some f \<and>
               roster_entry cl (Message.Sender (?ms ! i)) = Some r \<and>
               ChatLabMember.AccountName r = senderName f) \<and>
        ((\<forall>j<i. Message.Sender (?ms ! j) \<noteq> Message.Sender (?ms ! i)) \<longrightarrow>
           (\<exists>r. roster_entry cl (Message.Sender (?ms ! i)) = Some r \<and>
                ChatLabMember.AccountName r = self_name))"
    by blast
  have s: "IsSelf msg_image" "Message.SenderName msg_image = ''''"
    "IsSelf msg_self_unnamed" "Message.SenderName msg_self_unnamed = ''''"
    "Message.Sender msg_image = ''wxid_me''" "Message.Sender msg_hello = ''wxid_alice''"
    by (simp_all add: msg_image_def msg_self_unnamed_def msg_hello_def)
  have first: "\<forall>j<1. Message.Sender (?ms ! j) \<noteq> Message.Sender (?ms ! 1)"
    by (simp add: s)
  from e [rule_format, of 1] s first
  have a: "ChatLabMessage.AccountName (elems (Messages cl) ! 1) = self_name \<and>
      (\<exists>r. roster_entry cl ''wxid_me'' = Some r \<and> ChatLabMember.AccountName r = self_name)"
    by simp
  from e [rule_format, of 2] s
  have b: "ChatLabMessage.AccountName (elems (Messages cl) ! 2) = self_name"
    by simp
  from r a b show ?thesis by blast
qed

subsection \<open>Two runs on the same input\<close>

text \<open>
  Claim C6, as the spec states it, fails: the roster is filled by ranging over a Go map
  (lines 236-238), whose order may differ between two runs, so the member lists of two runs
  on the same input can differ.
\<close>

theorem roster_order_counterexample:
  "ConvertToChatLab sample_codes 0 [0] [Some msg_hello, Some msg_image] ''wxid_alice'' ''Alice'' =
     Inr (two_message_envelope [roster_alice, roster_me]) \<and>
   ConvertToChatLab sample_codes 0 [1] [Some msg_hello, Some msg_image] ''wxid_alice'' ''Alice'' =
     Inr (two_message_envelope [roster_me, roster_alice]) \<and>
   Members (two_message_envelope [roster_alice, roster_me]) \<noteq>
   Members (two_message_envelope [roster_me, roster_alice])"
proof -
  have m: "collect_member False msg_image (collect_member False msg_hello []) =
      [(''wxid_alice'', roster_alice), (''wxid_me'', roster_me)]"
    by (simp add: collect_member_def member_def senderName_def msg_hello_def msg_image_def
        roster_alice_def roster_me_def self_name_def)
  have c: "clMsg sample_codes False msg_hello =
      \<lparr>ChatLabMessage.Sender = ''wxid_alice'', ChatLabMessage.AccountName = ''Alice'',
          ChatLabMessage.GroupNickname = '''', Timestamp = 1700000300,
          ChatLabMessage.Type = 0, ChatLabMessage.Content = ''hello''\<rparr>"
    "clMsg sample_codes False msg_image =
         \<lparr>ChatLabMessage.Sender = ''wxid_me'',
          ChatLabMessage.AccountName = [CHR 0xE6, CHR 0x88, CHR 0x91],
          ChatLabMessage.GroupNickname = '''', Timestamp = 1700000100,
          ChatLabMessage.Type = 1, ChatLabMessage.Content = ''/tmp/a.jpg''\<rparr>"
    by (simp_all add: clMsg_hello clMsg_image self_name_def)
  have o: "range_order [0] [(''wxid_alice'', roster_alice), (''wxid_me'', roster_me)] =
      [(''wxid_alice'', roster_alice), (''wxid_me'', roster_me)]"
    "range_order [1] [(''wxid_alice'', roster_alice), (''wxid_me'', roster_me)] =
      [(''wxid_me'', roster_me), (''wxid_alice'', roster_alice)]"
    by (simp_all add: Let_def)
  have d: "roster_alice \<noteq> roster_me"
    by (simp add: roster_alice_def roster_me_def)
  have g: "\<not> isGroup ''wxid_alice''" by (simp add: isGroup_def)
  show ?thesis
    using d by (simp add: run_two g m c o two_message_envelope_def header_def meta_def)
qed

text \<open>
  Claim C6, amended. Two runs on the same input, at any two instants and with any two
  iteration orders, return the same messages, the same metadata and the same header apart
  from the export instant, and rosters with the same members, possibly in another order.
\<close>

theorem runs_agree_up_to_roster_order:
  "\<exists>cl1 cl2.
     ConvertToChatLab c now1 order1 (map Some ms) talkerID talkerName = Inr cl1 \<and>
     ConvertToChatLab c now2 order2 (map Some ms) talkerID talkerName = Inr cl2 \<and>
     Messages cl1 = Messages cl2 \<and>
     Meta cl1 = Meta cl2 \<and>
     Version (ChatLab cl1) = Version (ChatLab cl2) \<and>
     Generator (ChatLab cl1) = Generator (ChatLab cl2) \<and>
     Description (ChatLab cl1) = Description (ChatLab cl2) \<and>
     mset (elems (Members cl1)) = mset (elems (Members cl2))"
  by (simp add: ConvertToChatLab_Some header_def mset_range_order)

text \<open>Two runs at different instants that take the two orders of a two-entry map.\<close>

theorem runs_agree_up_to_roster_order_witness:
  "\<exists>cl1 cl2.
     ConvertToChatLab sample_codes 1700001000 [0] (map Some [msg_hello, msg_image])
       ''wxid_alice'' ''Alice'' = Inr cl1 \<and>
     ConvertToChatLab sample_codes 1700002000 [1] (map Some [msg_hello, msg_image])
       ''wxid_alice'' ''Alice'' = Inr cl2 \<and>
     Messages cl1 = Messages cl2 \<and>
     Meta cl1 = Meta cl2 \<and>
     mset (elems (Members cl1)) = mset (elems (Members cl2))"
  using runs_agree_up_to_roster_order
    [of sample_codes 1700001000 "[0]" "[msg_hello, msg_image]" "''wxid_alice''" "''Alice''"
        1700002000 "[1]"]
  by blast

subsection \<open>Share messages\<close>

text \<open>
  Claim C7. A share message with the sub-type link or link2 has the export type
  \<^const>\<open>ChatLabTypeLink\<close> and as content the \<open>url\<close> attribute when it is a string, the original
  content otherwise; a share message whose sub-type is none of the sub-types of the inner
  switch has the export type \<^const>\<open>ChatLabTypeShare\<close> and its original content.
\<close>

theorem share_link_and_default:
  assumes "compiles c"
  shows "\<exists>cl. ConvertToChatLab c now order (map Some ms) talkerID talkerName = Inr cl \<and>
     (\<forall>i<length ms. Message.Type (ms ! i) = MessageTypeShare c \<longrightarrow>
        (Message.SubType (ms ! i) = MessageSubTypeLink c
           \<or> Message.SubType (ms ! i) = MessageSubTypeLink2 c \<longrightarrow>
         ChatLabMessage.Type (elems (Messages cl) ! i) = ChatLabTypeLink \<and>
         ChatLabMessage.Content (elems (Messages cl) ! i) =
           (case Contents (ms ! i) ''url'' of
              Some (AnyString url) \<Rightarrow> url
            | _ \<Rightarrow> Message.Content (ms ! i))) \<and>
        (Message.SubType (ms ! i) \<notin> set (sub_codes c) \<longrightarrow>
         ChatLabMessage.Type (elems (Messages cl) ! i) = ChatLabTypeShare \<and>
         ChatLabMessage.Content (elems (Messages cl) ! i) = Message.Content (ms ! i)))"
proof -
  have "\<forall>i<length ms. Message.Type (ms ! i) = MessageTypeShare c \<longrightarrow>
     (Message.SubType (ms ! i) = MessageSubTypeLink c
        \<or> Message.SubType (ms ! i) = MessageSubTypeLink2 c \<longrightarrow>
      type_switch c (ms ! i) =
        (ChatLabTypeLink,
         case Contents (ms ! i) ''url'' of
           Some (AnyString url) \<Rightarrow> url
         | _ \<Rightarrow> Message.Content (ms ! i))) \<and>
     (Message.SubType (ms ! i) \<notin> set (sub_codes c) \<longrightarrow>
      type_switch c (ms ! i) = (ChatLabTypeShare, Message.Content (ms ! i)))"
    using share_switch_link [OF assms] share_switch_default
    by (simp add: type_switch_share [OF assms])
  then show ?thesis
    by (simp add: ConvertToChatLab_Some clMsg_fields)
qed

text \<open>
  A link with a url, a link2 whose url is a number and whose content is empty, and a share
  with a sub-type that the switch does not list.
\<close>

theorem share_link_and_default_witness:
  "compiles sample_codes \<and>
   (\<exists>cl. ConvertToChatLab sample_codes 0 [] (map Some [msg_link, msg_link_bare, msg_share_unknown])
            ''12345@chatroom'' ''Team'' = Inr cl \<and>
      ChatLabMessage.Type (elems (Messages cl) ! 0) = 7 \<and>
      ChatLabMessage.Content (elems (Messages cl) ! 0) = ''https://x.test'' \<and>
      ChatLabMessage.Type (elems (Messages cl) ! 1) = 7 \<and>
      ChatLabMessage.Content (elems (Messages cl) ! 1) = '''' \<and>
      ChatLabMessage.Type (elems (Messages cl) ! 2) = 24 \<and>
      ChatLabMessage.Content (elems (Messages cl) ! 2) = ''channel'')"
proof -
  let ?ms = "[msg_link, msg_link_bare, msg_share_unknown]"
  from share_link_and_default [OF compiles_sample_codes, of 0 "[]" ?ms "''12345@chatroom''" "''Team''"]
  obtain cl where r: "ConvertToChatLab sample_codes 0 [] (map Some ?ms) ''12345@chatroom'' ''Team'' = Inr cl"
    and e: "\<forall>i<length ?ms. Message.Type (?ms ! i) = MessageTypeShare sample_codes \<longrightarrow>
        (Message.SubType (?ms ! i) = MessageSubTypeLink sample_codes
           \<or> Message.SubType (?ms ! i) = MessageSubTypeLink2 sample_codes \<longrightarrow>
         ChatLabMessage.Type (elems (Messages cl) ! i) = ChatLabTypeLink \<and>
         ChatLabMessage.Content (elems (Messages cl) ! i) =
           (case Contents (?ms ! i) ''url'' of
              Some (AnyString url) \<Rightarrow> url
            | _ \<Rightarrow> Message.Content (?ms ! i))) \<and>
        (Message.SubType (?ms ! i) \<notin> set (sub_codes sample_codes) \<longrightarrow>
         ChatLabMessage.Type (elems (Messages cl) ! i) = ChatLabTypeShare \<and>
         ChatLabMessage.Content (elems (Messages cl) ! i) = Message.Content (?ms ! i))"
    by blast
  from e [rule_format, of 0] e [rule_format, of 1] e [rule_format, of 2]
  have "ChatLabMessage.Type (elems (Messages cl) ! 0) = 7 \<and>
      ChatLabMessage.Content (elems (Messages cl) ! 0) = ''https://x.test'' \<and>
      ChatLabMessage.Type (elems (Messages cl) ! 1) = 7 \<and>
      ChatLabMessage.Content (elems (Messages cl) ! 1) = '''' \<and>
      ChatLabMessage.Type (elems (Messages cl) ! 2) = 24 \<and>
      ChatLabMessage.Content (elems (Messages cl) ! 2) = ''channel''"
    by (simp add: msg_defs sample_codes_def sub_codes_def ChatLabTypeLink_def ChatLabTypeShare_def)
  with r compiles_sample_codes show ?thesis by blast
qed

subsection \<open>Totality\<close>

text \<open>
  Claim C8, as the spec states it, fails in its fallback part: the conversion returns an
  envelope, but a sticker whose \<open>cdnurl\<close> is a number and a location without a \<open>label\<close>
  get the Chinese placeholders of lines 131 and 139, not the documented \<^verbatim>\<open>[sticker]\<close>
  and \<^verbatim>\<open>[location]\<close>.
\<close>

theorem fallback_literals_counterexample:
  "Message.Type msg_sticker_bare = MessageTypeAnimation sample_codes \<and>
   Contents msg_sticker_bare ''cdnurl'' = Some (AnyNumber 0) \<and>
   Message.Type msg_location_bare = MessageTypeLocation sample_codes \<and>
   Contents msg_location_bare ''label'' = None \<and>
   ConvertToChatLab sample_codes 0 [] [Some msg_sticker_bare, Some msg_location_bare]
     ''wxid_bob'' ''Bob'' =
     Inr \<lparr>ChatLab = \<lparr>Version = ''0.0.1'', ExportedAt = 0, Generator = ''Chatlog'',
                      Description = ''''\<rparr>,
          Meta = \<lparr>Name = ''Bob'', Platform = ''wechat'', ChatLabMeta.Type = ''private'',
                  GroupID = '''', GroupAvatar = ''''\<rparr>,
          Members = Slice
            [\<lparr>PlatformID = ''wxid_bob'', ChatLabMember.AccountName = ''Bob'',
              ChatLabMember.GroupNickname = '''', Aliases = NilSlice, Avatar = ''''\<rparr>],
          Messages = Slice
            [\<lparr>ChatLabMessage.Sender = ''wxid_bob'', ChatLabMessage.AccountName = ''Bob'',
              ChatLabMessage.GroupNickname = '''', Timestamp = 1700001100,
              ChatLabMessage.Type = 5,
              ChatLabMessage.Content =
                [CHR ''['', CHR 0xE8, CHR 0xA1, CHR 0xA8, CHR 0xE6, CHR 0x83, CHR 0x85,
                 CHR '']'']\<rparr>,
             \<lparr>ChatLabMessage.Sender = ''wxid_bob'', ChatLabMessage.AccountName = ''Bob'',
              ChatLabMessage.GroupNickname = '''', Timestamp = 1700001200,
              ChatLabMessage.Type = 8,
              ChatLabMessage.Content =
                [CHR ''['', CHR 0xE4, CHR 0xBD, CHR 0x8D, CHR 0xE7, CHR 0xBD, CHR 0xAE,
                 CHR '']'']\<rparr>]\<rparr> \<and>
   [CHR ''['', CHR 0xE8, CHR 0xA1, CHR 0xA8, CHR 0xE6, CHR 0x83, CHR 0x85, CHR '']''] \<noteq> ''[sticker]'' \<and>
   [CHR ''['', CHR 0xE4, CHR 0xBD, CHR 0x8D, CHR 0xE7, CHR 0xBD, CHR 0xAE, CHR '']''] \<noteq> ''[location]''"
  by (simp add: run_two run_defs msg_sticker_bare_def msg_location_bare_def
      placeholder_emoji_def placeholder_location_def ChatLabTypeEmoji_def ChatLabTypeLocation_def)

text \<open>
  Claim C8, amended. On every sequence of messages the conversion returns an envelope with
  one export message per input message, never an error; each export type is one of the
  ChatLab type codes; a primary type that the outer switch does not list gives
  \<^const>\<open>ChatLabTypeOther\<close> with the original content; and an attribute that is absent or not
  a string degrades to the fallback the code writes: the placeholders of lines 118, 131 and
  139 (given here byte by byte) for image, sticker and location, where an empty label
  counts as absent, and the original content for the file, link, forward, mini-program and
  music sub-types of a share.
\<close>

theorem conversion_total:
  "\<exists>cl. ConvertToChatLab c now order (map Some ms) talkerID talkerName = Inr cl \<and>
     len (Messages cl) = length ms \<and>
     (\<forall>i<length ms.
        fst (exported cl i) \<in> set ChatLabTypes \<and>
        (Message.Type (ms ! i) \<notin> set (primary_codes c) \<longrightarrow>
           exported cl i = (ChatLabTypeOther, Message.Content (ms ! i))) \<and>
        (compiles c \<longrightarrow>
           (Message.Type (ms ! i) = MessageTypeImage c \<and>
            not_a_string (Contents (ms ! i) ''path'') \<and>
            not_a_string (Contents (ms ! i) ''md5'') \<longrightarrow>
              exported cl i =
                (ChatLabTypeImage,
                 [CHR ''['', CHR 0xE5, CHR 0x9B, CHR 0xBE, CHR 0xE7, CHR 0x89, CHR 0x87,
                  CHR '']''])) \<and>
           (Message.Type (ms ! i) = MessageTypeAnimation c \<and>
            not_a_string (Contents (ms ! i) ''cdnurl'') \<longrightarrow>
              exported cl i =
                (ChatLabTypeEmoji,
                 [CHR ''['', CHR 0xE8, CHR 0xA1, CHR 0xA8, CHR 0xE6, CHR 0x83, CHR 0x85,
                  CHR '']''])) \<and>
           (Message.Type (ms ! i) = MessageTypeLocation c \<and>
            (not_a_string (Contents (ms ! i) ''label'')
               \<or> Contents (ms ! i) ''label'' = Some (AnyString '''')) \<longrightarrow>
              exported cl i =
                (ChatLabTypeLocation,
                 [CHR ''['', CHR 0xE4, CHR 0xBD, CHR 0x8D, CHR 0xE7, CHR 0xBD, CHR 0xAE,
                  CHR '']''])) \<and>
           (Message.Type (ms ! i) = MessageTypeShare c \<longrightarrow>
              (Message.SubType (ms ! i) = MessageSubTypeFile c \<and>
               not_a_string (Contents (ms ! i) ''title'') \<longrightarrow>
                 exported cl i = (ChatLabTypeFile, Message.Content (ms ! i))) \<and>
              ((Message.SubType (ms ! i) = MessageSubTypeLink c
                  \<or> Message.SubType (ms ! i) = MessageSubTypeLink2 c) \<and>
               not_a_string (Contents (ms ! i) ''url'') \<longrightarrow>
                 exported cl i = (ChatLabTypeLink, Message.Content (ms ! i))) \<and>
              ((Message.SubType (ms ! i) = MessageSubTypeMergeForward c
                  \<or> Message.SubType (ms ! i) = MessageSubTypeNote c
                  \<or> Message.SubType (ms ! i) = MessageSubTypeChatRoomNotice c) \<and>
               not_a_string (Contents (ms ! i) ''title'') \<longrightarrow>
                 exported cl i = (ChatLabTypeForward, Message.Content (ms ! i))) \<and>
              ((Message.SubType (ms ! i) = MessageSubTypeMiniProgram c
                  \<or> Message.SubType (ms ! i) = MessageSubTypeMiniProgram2 c) \<and>
               not_a_string (Contents (ms ! i) ''title'') \<longrightarrow>
                 exported cl i = (ChatLabTypeShare, Message.Content (ms ! i))) \<and>
              (Message.SubType (ms ! i) = MessageSubTypeMusic c \<and>
               not_a_string (Contents (ms ! i) ''url'') \<longrightarrow>
                 exported cl i = (ChatLabTypeShare, Message.Content (ms ! i))))))"
proof -
  obtain cl where r: "ConvertToChatLab c now order (map Some ms) talkerID talkerName = Inr cl"
    by (simp add: ConvertToChatLab_Some)
  have l: "len (Messages cl) = length ms"
    by (simp add: len_def Messages_of_result [OF r])
  have "fst (exported cl i) \<in> set ChatLabTypes \<and>
        (Message.Type (ms ! i) \<notin> set (primary_codes c) \<longrightarrow>
           exported cl i = (ChatLabTypeOther, Message.Content (ms ! i))) \<and>
        (compiles c \<longrightarrow>
           (Message.Type (ms ! i) = MessageTypeImage c \<and>
            not_a_string (Contents (ms ! i) ''path'') \<and>
            not_a_string (Contents (ms ! i) ''md5'') \<longrightarrow>
              exported cl i =
                (ChatLabTypeImage,
                 [CHR ''['', CHR 0xE5, CHR 0x9B, CHR 0xBE, CHR 0xE7, CHR 0x89, CHR 0x87,
                  CHR '']''])) \<and>
           (Message.Type (ms ! i) = MessageTypeAnimation c \<and>
            not_a_string (Contents (ms ! i) ''cdnurl'') \<longrightarrow>
              exported cl i =
                (ChatLabTypeEmoji,
                 [CHR ''['', CHR 0xE8, CHR 0xA1, CHR 0xA8, CHR 0xE6, CHR 0x83, CHR 0x85,
                  CHR '']''])) \<and>
           (Message.Type (ms ! i) = MessageTypeLocation c \<and>
            (not_a_string (Contents (ms ! i) ''label'')
               \<or> Contents (ms ! i) ''label'' = Some (AnyString '''')) \<longrightarrow>
              exported cl i =
                (ChatLabTypeLocation,
                 [CHR ''['', CHR 0xE4, CHR 0xBD, CHR 0x8D, CHR 0xE7, CHR 0xBD, CHR 0xAE,
                  CHR '']''])) \<and>
           (Message.Type (ms ! i) = MessageTypeShare c \<longrightarrow>
              (Message.SubType (ms ! i) = MessageSubTypeFile c \<and>
               not_a_string (Contents (ms ! i) ''title'') \<longrightarrow>
                 exported cl i = (ChatLabTypeFile, Message.Content (ms ! i))) \<and>
              ((Message.SubType (ms ! i) = MessageSubTypeLink c
                  \<or> Message.SubType (ms ! i) = MessageSubTypeLink2 c) \<and>
               not_a_string (Contents (ms ! i) ''url'') \<longrightarrow>
                 exported cl i = (ChatLabTypeLink, Message.Content (ms ! i))) \<and>
              ((Message.SubType (ms ! i) = MessageSubTypeMergeForward c
                  \<or> Message.SubType (ms ! i) = MessageSubTypeNote c
                  \<or> Message.SubType (ms ! i) = MessageSubTypeChatRoomNotice c) \<and>
               not_a_string (Contents (ms ! i) ''title'') \<longrightarrow>
                 exported cl i = (ChatLabTypeForward, Message.Content (ms ! i))) \<and>
              ((Message.SubType (ms ! i) = MessageSubTypeMiniProgram c
                  \<or> Message.SubType (ms ! i) = MessageSubTypeMiniProgram2 c) \<and>
               not_a_string (Contents (ms ! i) ''title'') \<longrightarrow>
                 exported cl i = (ChatLabTypeShare, Message.Content (ms ! i))) \<and>
              (Message.SubType (ms ! i) = MessageSubTypeMusic c \<and>
               not_a_string (Contents (ms ! i) ''url'') \<longrightarrow>
                 exported cl i = (ChatLabTypeShare, Message.Content (ms ! i)))))"
    if i: "i < length ms" for i
    unfolding exported_of_result [OF r i]
  proof (intro conjI impI; (elim conjE)?)
    show "fst (type_switch c (ms ! i)) \<in> set ChatLabTypes" by (rule type_switch_valid)
    show "type_switch c (ms ! i) = (ChatLabTypeOther, Message.Content (ms ! i))"
      if "Message.Type (ms ! i) \<notin> set (primary_codes c)"
      using that by (rule type_switch_other)
  next
    assume "compiles c" "Message.Type (ms ! i) = MessageTypeImage c"
      "not_a_string (Contents (ms ! i) ''path'')" "not_a_string (Contents (ms ! i) ''md5'')"
    then show "type_switch c (ms ! i) =
        (ChatLabTypeImage,
         [CHR ''['', CHR 0xE5, CHR 0x9B, CHR 0xBE, CHR 0xE7, CHR 0x89, CHR 0x87, CHR '']''])"
      by (simp add: type_switch_image_fallback placeholder_image_def)
  next
    assume "compiles c" "Message.Type (ms ! i) = MessageTypeAnimation c"
      "not_a_string (Contents (ms ! i) ''cdnurl'')"
    then show "type_switch c (ms ! i) =
        (ChatLabTypeEmoji,
         [CHR ''['', CHR 0xE8, CHR 0xA1, CHR 0xA8, CHR 0xE6, CHR 0x83, CHR 0x85, CHR '']''])"
      by (simp add: type_switch_animation_fallback placeholder_emoji_def)
  next
    assume "compiles c" "Message.Type (ms ! i) = MessageTypeLocation c"
      "not_a_string (Contents (ms ! i) ''label'')
         \<or> Contents (ms ! i) ''label'' = Some (AnyString '''')"
    then show "type_switch c (ms ! i) =
        (ChatLabTypeLocation,
         [CHR ''['', CHR 0xE4, CHR 0xBD, CHR 0x8D, CHR 0xE7, CHR 0xBD, CHR 0xAE, CHR '']''])"
      using type_switch_location_fallback [of c "ms ! i"]
      by (simp add: placeholder_location_def)
  next
    assume c: "compiles c" and s: "Message.Type (ms ! i) = MessageTypeShare c"
    note sw = type_switch_share [OF c s]
    {
      assume "Message.SubType (ms ! i) = MessageSubTypeFile c"
        "not_a_string (Contents (ms ! i) ''title'')"
      then show "type_switch c (ms ! i) = (ChatLabTypeFile, Message.Content (ms ! i))"
        unfolding sw by (rule share_switch_fallback(1) [OF c])
    next
      assume "Message.SubType (ms ! i) = MessageSubTypeLink c
          \<or> Message.SubType (ms ! i) = MessageSubTypeLink2 c"
        "not_a_string (Contents (ms ! i) ''url'')"
      then show "type_switch c (ms ! i) = (ChatLabTypeLink, Message.Content (ms ! i))"
        unfolding sw by (rule share_switch_fallback(2) [OF c])
    next
      assume "Message.SubType (ms ! i) = MessageSubTypeMergeForward c
          \<or> Message.SubType (ms ! i) = MessageSubTypeNote c
          \<or> Message.SubType (ms ! i) = MessageSubTypeChatRoomNotice c"
        "not_a_string (Contents (ms ! i) ''title'')"
      then show "type_switch c (ms ! i) = (ChatLabTypeForward, Message.Content (ms ! i))"
        unfolding sw by (rule share_switch_fallback(3) [OF c])
    next
      assume "Message.SubType (ms ! i) = MessageSubTypeMiniProgram c
          \<or> Message.SubType (ms ! i) = MessageSubTypeMiniProgram2 c"
        "not_a_string (Contents (ms ! i) ''title'')"
      then show "type_switch c (ms ! i) = (ChatLabTypeShare, Message.Content (ms ! i))"
        unfolding sw by (rule share_switch_fallback(4) [OF c])
    next
      assume "Message.SubType (ms ! i) = MessageSubTypeMusic c"
        "not_a_string (Contents (ms ! i) ''url'')"
      then show "type_switch c (ms ! i) = (ChatLabTypeShare, Message.Content (ms ! i))"
        unfolding sw by (rule share_switch_fallback(5) [OF c])
    }
  qed
  with r l show ?thesis by blast
qed

text \<open>
  One message for each case: an unknown primary type whose \<open>path\<close> is a boolean, an image
  without attributes, a sticker whose \<open>cdnurl\<close> is a number, a location without a label, a
  file whose \<open>title\<close> is nil, a link2 whose \<open>url\<close> is a number, a note without a title, a
  mini-program whose \<open>title\<close> is a boolean and a music share whose \<open>url\<close> is a list.
\<close>

theorem conversion_total_witness:
  "compiles sample_codes \<and>
   (\<exists>cl. ConvertToChatLab sample_codes 0 []
           (map Some [msg_unknown, msg_image_bare, msg_sticker_bare, msg_location_bare,
                      msg_file_bare, msg_link_bare, msg_note_bare, msg_mini_bare,
                      msg_music_bare])
           ''wxid_bob'' '''' = Inr cl \<and>
      len (Messages cl) = 9 \<and>
      exported cl 0 = (99, ''raw'') \<and>
      exported cl 1 = (1, placeholder_image) \<and>
      exported cl 2 = (5, placeholder_emoji) \<and>
      exported cl 3 = (8, placeholder_location) \<and>
      exported cl 4 = (4, ''report'') \<and>
      exported cl 5 = (7, '''') \<and>
      exported cl 6 = (26, ''note'') \<and>
      exported cl 7 = (24, ''mini'') \<and>
      exported cl 8 = (24, ''song''))"
proof -
  let ?ms = "[msg_unknown, msg_image_bare, msg_sticker_bare, msg_location_bare,
              msg_file_bare, msg_link_bare, msg_note_bare, msg_mini_bare, msg_music_bare]"
  have v: "MessageTypeImage sample_codes = 3" "MessageTypeAnimation sample_codes = 47"
    "MessageTypeLocation sample_codes = 48" "MessageTypeShare sample_codes = 49"
    "MessageSubTypeFile sample_codes = 6" "MessageSubTypeLink sample_codes = 4"
    "MessageSubTypeLink2 sample_codes = 5" "MessageSubTypeMergeForward sample_codes = 19"
    "MessageSubTypeNote sample_codes = 24" "MessageSubTypeChatRoomNotice sample_codes = 87"
    "MessageSubTypeMiniProgram sample_codes = 33" "MessageSubTypeMiniProgram2 sample_codes = 36"
    "MessageSubTypeMusic sample_codes = 92"
    "primary_codes sample_codes = [1, 3, 34, 43, 47, 48, 42, 50, 10000, 49]"
    by (simp_all add: sample_codes_def primary_codes_def)
  note ev = bare_defs v not_a_string_def compiles_sample_codes
    ChatLabType_defs placeholder_image_def placeholder_emoji_def placeholder_location_def
  from conversion_total [of sample_codes 0 "[]" ?ms "''wxid_bob''" "''''"]
  obtain cl where r: "ConvertToChatLab sample_codes 0 [] (map Some ?ms) ''wxid_bob'' '''' = Inr cl"
    and l: "len (Messages cl) = length ?ms"
    and e: "(\<forall>i<length ?ms.
        fst (exported cl i) \<in> set ChatLabTypes \<and>
        (Message.Type (?ms ! i) \<notin> set (primary_codes sample_codes) \<longrightarrow>
           exported cl i = (ChatLabTypeOther, Message.Content (?ms ! i))) \<and>
        (compiles sample_codes \<longrightarrow>
           (Message.Type (?ms ! i) = MessageTypeImage sample_codes \<and>
            not_a_string (Contents (?ms ! i) ''path'') \<and>
            not_a_string (Contents (?ms ! i) ''md5'') \<longrightarrow>
              exported cl i =
                (ChatLabTypeImage,
                 [CHR ''['', CHR 0xE5, CHR 0x9B, CHR 0xBE, CHR 0xE7, CHR 0x89, CHR 0x87,
                  CHR '']''])) \<and>
           (Message.Type (?ms ! i) = MessageTypeAnimation sample_codes \<and>
            not_a_string (Contents (?ms ! i) ''cdnurl'') \<longrightarrow>
              exported cl i =
                (ChatLabTypeEmoji,
                 [CHR ''['', CHR 0xE8, CHR 0xA1, CHR 0xA8, CHR 0xE6, CHR 0x83, CHR 0x85,
                  CHR '']''])) \<and>
           (Message.Type (?ms ! i) = MessageTypeLocation sample_codes \<and>
            (not_a_string (Contents (?ms ! i) ''label'')
               \<or> Contents (?ms ! i) ''label'' = Some (AnyString '''')) \<longrightarrow>
              exported cl i =
                (ChatLabTypeLocation,
                 [CHR ''['', CHR 0xE4, CHR 0xBD, CHR 0x8D, CHR 0xE7, CHR 0xBD, CHR 0xAE,
                  CHR '']''])) \<and>
           (Message.Type (?ms ! i) = MessageTypeShare sample_codes \<longrightarrow>
              (Message.SubType (?ms ! i) = MessageSubTypeFile sample_codes \<and>
               not_a_string (Contents (?ms ! i) ''title'') \<longrightarrow>
                 exported cl i = (ChatLabTypeFile, Message.Content (?ms ! i))) \<and>
              ((Message.SubType (?ms ! i) = MessageSubTypeLink sample_codes
                  \<or> Message.SubType (?ms ! i) = MessageSubTypeLink2 sample_codes) \<and>
               not_a_string (Contents (?ms ! i) ''url'') \<longrightarrow>
                 exported cl i = (ChatLabTypeLink, Message.Content (?ms ! i))) \<and>
              ((Message.SubType (?ms ! i) = MessageSubTypeMergeForward sample_codes
                  \<or> Message.SubType (?ms ! i) = MessageSubTypeNote sample_codes
                  \<or> Message.SubType (?ms ! i) = MessageSubTypeChatRoomNotice sample_codes) \<and>
               not_a_string (Contents (?ms ! i) ''title'') \<longrightarrow>
                 exported cl i = (ChatLabTypeForward, Message.Content (?ms ! i))) \<and>
              ((Message.SubType (?ms ! i) = MessageSubTypeMiniProgram sample_codes
                  \<or> Message.SubType (?ms ! i) = MessageSubTypeMiniProgram2 sample_codes) \<and>
               not_a_string (Contents (?ms ! i) ''title'') \<longrightarrow>
                 exported cl i = (ChatLabTypeShare, Message.Content (?ms ! i))) \<and>
              (Message.SubType (?ms ! i) = MessageSubTypeMusic sample_codes \<and>
               not_a_string (Contents (?ms ! i) ''url'') \<longrightarrow>
                 exported cl i = (ChatLabTypeShare, Message.Content (?ms ! i))))))"
    by blast
  from l have l9: "len (Messages cl) = 9" by simp
  from e [rule_format, of 0] have e0: "exported cl 0 = (99, ''raw'')" by (simp add: ev)
  from e [rule_format, of 1] have e1: "exported cl 1 = (1, placeholder_image)" by (simp add: ev)
  from e [rule_format, of 2] have e2: "exported cl 2 = (5, placeholder_emoji)" by (simp add: ev)
  from e [rule_format, of 3] have e3: "exported cl 3 = (8, placeholder_location)" by (simp add: ev)
  from e [rule_format, of 4] have e4: "exported cl 4 = (4, ''report'')" by (simp add: ev)
  from e [rule_format, of 5] have e5: "exported cl 5 = (7, '''')" by (simp add: ev)
  from e [rule_format, of 6] have e6: "exported cl 6 = (26, ''note'')" by (simp add: ev)
  from e [rule_format, of 7] have e7: "exported cl 7 = (24, ''mini'')" by (simp add: ev)
  from e [rule_format, of 8] have e8: "exported cl 8 = (24, ''song'')" by (simp add: ev)
  show ?thesis
    by (rule conjI [OF compiles_sample_codes], rule exI [of _ cl])
       (intro conjI r l9 e0 e1 e2 e3 e4 e5 e6 e7 e8)
qed

subsection \<open>Group nicknames\<close>

text \<open>
  Claim C9. In a group conversation the group nickname of every export message is the
  resolved display name of the sender, the same value as its account name; in a private
  conversation the group nickname is empty.
\<close>

theorem group_nickname_of_messages:
  "\<exists>cl. ConvertToChatLab c now order (map Some ms) talkerID talkerName = Inr cl \<and>
     (ChatLabMeta.Type (Meta cl) = ''group'' \<or> ChatLabMeta.Type (Meta cl) = ''private'') \<and>
     (\<forall>i<length ms.
        ChatLabMessage.AccountName (elems (Messages cl) ! i) = senderName (ms ! i) \<and>
        (ChatLabMeta.Type (Meta cl) = ''group'' \<longrightarrow>
           ChatLabMessage.GroupNickname (elems (Messages cl) ! i) = senderName (ms ! i)) \<and>
        (ChatLabMeta.Type (Meta cl) = ''private'' \<longrightarrow>
           ChatLabMessage.GroupNickname (elems (Messages cl) ! i) = ''''))"
  by (simp add: ConvertToChatLab_Some meta_def clMsg_fields)

text \<open>The same two messages in a chat room and in a private chat.\<close>

theorem group_nickname_of_messages_witness:
  "(\<exists>cl. ConvertToChatLab sample_codes 0 [] (map Some [msg_hello, msg_image])
            ''12345@chatroom'' ''Team'' = Inr cl \<and>
      ChatLabMeta.Type (Meta cl) = ''group'' \<and>
      ChatLabMessage.AccountName (elems (Messages cl) ! 0) = ''Alice'' \<and>
      ChatLabMessage.GroupNickname (elems (Messages cl) ! 0) = ''Alice'' \<and>
      ChatLabMessage.AccountName (elems (Messages cl) ! 1) = self_name \<and>
      ChatLabMessage.GroupNickname (elems (Messages cl) ! 1) = self_name) \<and>
   (\<exists>cl. ConvertToChatLab sample_codes 0 [] (map Some [msg_hello, msg_image])
            ''wxid_alice'' ''Alice'' = Inr cl \<and>
      ChatLabMeta.Type (Meta cl) = ''private'' \<and>
      ChatLabMessage.AccountName (elems (Messages cl) ! 0) = ''Alice'' \<and>
      ChatLabMessage.GroupNickname (elems (Messages cl) ! 0) = '''' \<and>
      ChatLabMessage.AccountName (elems (Messages cl) ! 1) = self_name \<and>
      ChatLabMessage.GroupNickname (elems (Messages cl) ! 1) = '''')"
proof -
  let ?ms = "[msg_hello, msg_image]"
  have s: "senderName msg_hello = ''Alice''" "senderName msg_image = self_name"
    by (simp_all add: senderName_def msg_defs)
  from group_nickname_of_messages [of sample_codes 0 "[]" ?ms "''12345@chatroom''" "''Team''"]
  obtain cl where r: "ConvertToChatLab sample_codes 0 [] (map Some ?ms) ''12345@chatroom'' ''Team'' = Inr cl"
    and e: "\<forall>i<length ?ms.
        ChatLabMessage.AccountName (elems (Messages cl) ! i) = senderName (?ms ! i) \<and>
        (ChatLabMeta.Type (Meta cl) = ''group'' \<longrightarrow>
           ChatLabMessage.GroupNickname (elems (Messages cl) ! i) = senderName (?ms ! i)) \<and>
        (ChatLabMeta.Type (Meta cl) = ''private'' \<longrightarrow>
           ChatLabMessage.GroupNickname (elems (Messages cl) ! i) = '''')"
    by blast
  from e [rule_format, of 0] e [rule_format, of 1] Meta_of_result [OF r] s
  have a: "ChatLabMeta.Type (Meta cl) = ''group'' \<and>
      ChatLabMessage.AccountName (elems (Messages cl) ! 0) = ''Alice'' \<and>
      ChatLabMessage.GroupNickname (elems (Messages cl) ! 0) = ''Alice'' \<and>
      ChatLabMessage.AccountName (elems (Messages cl) ! 1) = self_name \<and>
      ChatLabMessage.GroupNickname (elems (Messages cl) ! 1) = self_name"
    by (simp add: meta_def isGroup_def)
  from group_nickname_of_messages [of sample_codes 0 "[]" ?ms "''wxid_alice''" "''Alice''"]
  obtain cl' where r': "ConvertToChatLab sample_codes 0 [] (map Some ?ms) ''wxid_alice'' ''Alice'' = Inr cl'"
    and e': "\<forall>i<length ?ms.
        ChatLabMessage.AccountName (elems (Messages cl') ! i) = senderName (?ms ! i) \<and>
        (ChatLabMeta.Type (Meta cl') = ''group'' \<longrightarrow>
           ChatLabMessage.GroupNickname (elems (Messages cl') ! i) = senderName (?ms ! i)) \<and>
        (ChatLabMeta.Type (Meta cl') = ''private'' \<longrightarrow>
           ChatLabMessage.GroupNickname (elems (Messages cl') ! i) = '''')"
    by blast
  from e' [rule_format, of 0] e' [rule_format, of 1] Meta_of_result [OF r'] s
  have b: "ChatLabMeta.Type (Meta cl') = ''private'' \<and>
      ChatLabMessage.AccountName (elems (Messages cl') ! 0) = ''Alice'' \<and>
      ChatLabMessage.GroupNickname (elems (Messages cl') ! 0) = '''' \<and>
      ChatLabMessage.AccountName (elems (Messages cl') ! 1) = self_name \<and>
      ChatLabMessage.GroupNickname (elems (Messages cl') ! 1) = ''''"
    by (simp add: meta_def isGroup_def)
  from r a r' b show ?thesis by blast
qed

subsection \<open>The empty conversation\<close>

text \<open>
  Claim C10. For an empty message sequence the conversion returns the envelope with the
  version \<open>0.0.1\<close>, the generator label, the export instant, the resolved name, the platform,
  the kind and the group identifier filled in, and with a message list and a roster that are
  empty slices and not nil.
\<close>

theorem empty_input_envelope:
  "ConvertToChatLab c now order [] talkerID talkerName =
     Inr \<lparr>ChatLab = \<lparr>Version = ''0.0.1'', ExportedAt = now, Generator = ''Chatlog'',
                      Description = ''''\<rparr>,
          Meta = \<lparr>Name = (if talkerName = '''' then talkerID else talkerName),
                  Platform = ''wechat'',
                  ChatLabMeta.Type = (if isGroup talkerID then ''group'' else ''private''),
                  GroupID = (if isGroup talkerID then talkerID else ''''),
                  GroupAvatar = ''''\<rparr>,
          Members = Slice [],
          Messages = Slice []\<rparr>
   \<and> Slice [] \<noteq> (NilSlice :: ChatLabMember slice)
   \<and> Slice [] \<noteq> (NilSlice :: ChatLabMessage slice)
   \<and> len (Slice [] :: ChatLabMember slice) = 0 \<and> len (Slice [] :: ChatLabMessage slice) = 0"
  using ConvertToChatLab_Some [of c now order "[]" talkerID talkerName]
  by (simp add: header_def meta_def len_def)

text \<open>The empty conversation of a chat room without a display name.\<close>

theorem empty_input_envelope_witness:
  "ConvertToChatLab sample_codes 1700000000 [] [] ''12345@chatroom'' '''' =
     Inr \<lparr>ChatLab = \<lparr>Version = ''0.0.1'', ExportedAt = 1700000000, Generator = ''Chatlog'',
                      Description = ''''\<rparr>,
          Meta = \<lparr>Name = ''12345@chatroom'', Platform = ''wechat'',
                  ChatLabMeta.Type = ''group'', GroupID = ''12345@chatroom'', GroupAvatar = ''''\<rparr>,
          Members = Slice [],
          Messages = Slice []\<rparr>"
  using empty_input_envelope [of sample_codes 1700000000 "[]" "''12345@chatroom''" "''''"]
  by (simp add: isGroup_def)

end
